theory Spec2Isabelle
  imports Main "HOL-Library.Word"
begin

chapter \<open>The parameter store, geometry builder and property offsets of planegcs\<close>

section \<open>Property offsets (sketch/geom_params.ts)\<close>

subsection \<open>Data\<close>

text \<open>
  The keys of the table \<open>property_offsets\<close> are the values the tag \<open>primitive.type\<close> of a
  \<open>SketchGeometry\<close> ranges over: the index expression \<open>property_offsets[primitive.type]\<close>
  is typed by them. (The declaration of \<open>SketchGeometry\<close> is in sketch_primitive.ts.)
\<close>

datatype geometry_type =
    point | circle | arc | ellipse | arc_of_ellipse | parabola | arc_of_parabola
  | hyperbola | arc_of_hyperbola | bspline | line

text \<open>The tag as the string the template literal \<open>${primitive.type}\<close> prints.\<close>

fun type_name :: "geometry_type \<Rightarrow> string" where
  "type_name point = ''point''"
| "type_name circle = ''circle''"
| "type_name arc = ''arc''"
| "type_name ellipse = ''ellipse''"
| "type_name arc_of_ellipse = ''arc_of_ellipse''"
| "type_name parabola = ''parabola''"
| "type_name arc_of_parabola = ''arc_of_parabola''"
| "type_name hyperbola = ''hyperbola''"
| "type_name arc_of_hyperbola = ''arc_of_hyperbola''"
| "type_name bspline = ''bspline''"
| "type_name line = ''line''"

text \<open>
  What \<open>get_property_offset\<close> reads of a primitive: its tag and, of a B-spline, the three
  arrays whose lengths make up the base offset. Control points are object ids; the
  entries of \<open>weights\<close> and \<open>knots\<close> are numbers that are never computed with here, so
  their type is left open.
\<close>

record 'n SketchGeometry =
  type :: geometry_type
  control_points :: "string list"
  weights :: "'n list"
  knots :: "'n list"

text \<open>The names of the union type \<open>SketchGeometryProperty\<close>, in the order declared.\<close>

definition SketchGeometryProperty :: "string list" where
  "SketchGeometryProperty =
     [''x'', ''y'', ''radius'', ''start_angle'', ''end_angle'', ''radmin'',
      ''start_x'', ''start_y'', ''end_x'', ''end_y'']"

text \<open>The object literal \<open>property_offsets\<close>: per kind, its own properties in order.\<close>

fun property_offsets :: "geometry_type \<Rightarrow> (string \<times> nat) list" where
  "property_offsets point = [(''x'', 0), (''y'', 1)]"
| "property_offsets circle = [(''radius'', 0)]"
| "property_offsets arc = [(''start_angle'', 0), (''end_angle'', 1), (''radius'', 2)]"
| "property_offsets ellipse = [(''radmin'', 0)]"
| "property_offsets arc_of_ellipse = [(''start_angle'', 0), (''end_angle'', 1), (''radmin'', 2)]"
| "property_offsets parabola = []"
| "property_offsets arc_of_parabola = [(''start_angle'', 0), (''end_angle'', 1)]"
| "property_offsets hyperbola = [(''radmin'', 0)]"
| "property_offsets arc_of_hyperbola = [(''start_angle'', 0), (''end_angle'', 1), (''radmin'', 2)]"
| "property_offsets bspline = [(''start_x'', 0), (''start_y'', 1), (''end_x'', 2), (''end_y'', 3)]"
| "property_offsets line = []"

subsection \<open>Property access on an object literal\<close>

text \<open>
  The types of TypeScript are erased when the code runs: \<open>property_key\<close> is a string, and
  \<open>primitive_offsets[property_key]\<close> is JavaScript's property read. On an object literal
  it finds the literal's own properties first and then those of its prototype,
  \<open>Object.prototype\<close>; only a name found in neither reads as \<open>undefined\<close>. The members of
  \<open>Object.prototype\<close> are the ones of ECMA-262 (20.1.3 and B.2.2).
\<close>

datatype js_value =
    Number nat  \<comment> \<open>an offset of the table\<close>
  | Inherited string  \<comment> \<open>the member of \<open>Object.prototype\<close> of that name\<close>

definition Object_prototype :: "string list" where
  "Object_prototype =
     [''constructor'', ''hasOwnProperty'', ''isPrototypeOf'', ''propertyIsEnumerable'',
      ''toLocaleString'', ''toString'', ''valueOf'', ''__proto__'',
      ''__defineGetter__'', ''__defineSetter__'', ''__lookupGetter__'', ''__lookupSetter__'']"

text \<open>\<open>obj[key]\<close>, with \<open>None\<close> for \<open>undefined\<close>.\<close>

definition js_get :: "(string \<times> nat) list \<Rightarrow> string \<Rightarrow> js_value option" where
  "js_get obj key =
     (case map_of obj key of
        Some n \<Rightarrow> Some (Number n)
      | None \<Rightarrow> if key \<in> set Object_prototype then Some (Inherited key) else None)"

text \<open>\<open>obj.name\<close> for a name the literal declares (a static access, checked by the compiler).\<close>

definition js_own :: "(string \<times> nat) list \<Rightarrow> string \<Rightarrow> nat" where
  "js_own obj name = the (map_of obj name)"

subsection \<open>The resolver\<close>

text \<open>A thrown \<open>new Error(message)\<close>.\<close>

datatype error = Error string

text \<open>
  \<open>get_property_offset\<close>. The \<open>switch\<close> compares the key with the four case labels by
  strict equality, in order. After the B-spline branch, \<open>primitive_offsets\<close> is one of
  the object literals of the table, which is truthy also when it is empty, so the test
  \<open>if (primitive_offsets)\<close> always passes for a tag of the table.
\<close>

definition get_property_offset :: "'n SketchGeometry \<Rightarrow> string \<Rightarrow> error + js_value" where
  "get_property_offset primitive property_key =
     (if type primitive = bspline then
        (let base =
           length (control_points primitive) * 2 +
           length (weights primitive) +
           length (knots primitive)
         in
           if property_key = ''start_x'' then
             Inr (Number (base + js_own (property_offsets bspline) ''start_x''))
           else if property_key = ''start_y'' then
             Inr (Number (base + js_own (property_offsets bspline) ''start_y''))
           else if property_key = ''end_x'' then
             Inr (Number (base + js_own (property_offsets bspline) ''end_x''))
           else if property_key = ''end_y'' then
             Inr (Number (base + js_own (property_offsets bspline) ''end_y''))
           else
             Inl (Error (''Unknown property '' @ property_key @ '' for primitive <bspline>'')))
      else
        (let primitive_offsets = property_offsets (type primitive) in
           case js_get primitive_offsets property_key of
             Some offset \<Rightarrow> Inr offset
           | None \<Rightarrow>
               Inl (Error (''Unknown property '' @ property_key @ '' for primitive <'' @
                           type_name (type primitive) @ ''>''))))"

section \<open>The binding class GcsSystem (build-bindings/templates/gcs_system.cpp.njk)\<close>

subsection \<open>Integers, pointers and the free store\<close>

text \<open>
  The class is compiled to WebAssembly by Emscripten, so \<open>int\<close> has 32 bits (read with
  \<open>sint\<close>) and \<open>size_t\<close> is unsigned with 32 bits. Where an \<open>int\<close> meets a \<open>size_t\<close>, in
  the comparison \<open>p_params.size() <= i\<close> and in the subscript \<open>p_params[i]\<close>, C++ converts
  the \<open>int\<close> to \<open>size_t\<close>: a negative index becomes a number of at least \<open>2^31\<close>.
\<close>

type_synonym int32 = "32 word"

definition size_t :: "int32 \<Rightarrow> nat" where
  "size_t i = unat i"

text \<open>The conversion of a size to \<open>int\<close>, as in \<open>int index = p_params.size()\<close>.\<close>

definition to_int :: "nat \<Rightarrow> int32" where
  "to_int n = word_of_nat n"

text \<open>
  A \<open>double *\<close> is the address of a cell of the free store. The store is the list of its
  cells in the order of allocation: \<open>new double(v)\<close> appends a cell and \<open>delete\<close> empties
  one (\<open>None\<close>). An allocation is taken to succeed, and the model hands out no address
  twice; nothing below depends on which address a cell gets. The values of type
  \<open>double\<close> are stored and read back, never computed with, so their type \<open>'v\<close> is left
  open.
\<close>

type_synonym pointer = nat

definition new :: "'v \<Rightarrow> 'v option list \<Rightarrow> pointer \<times> 'v option list" where
  "new v store = (length store, store @ [Some v])"

text \<open>\<open>*p\<close> as a value; \<open>None\<close> when \<open>p\<close> does not point to a live cell.\<close>

definition deref :: "'v option list \<Rightarrow> pointer \<Rightarrow> 'v option" where
  "deref store p = (if p < length store then store ! p else None)"

text \<open>\<open>*p = v\<close>; \<open>None\<close> when \<open>p\<close> does not point to a live cell.\<close>

definition assign :: "pointer \<Rightarrow> 'v \<Rightarrow> 'v option list \<Rightarrow> 'v option list option" where
  "assign p v store =
     (case deref store p of None \<Rightarrow> None | Some old \<Rightarrow> Some (store[p := Some v]))"

text \<open>\<open>delete p\<close>; \<open>None\<close> when \<open>p\<close> does not point to a live cell (a double delete).\<close>

definition delete :: "pointer \<Rightarrow> 'v option list \<Rightarrow> 'v option list option" where
  "delete p store =
     (case deref store p of None \<Rightarrow> None | Some old \<Rightarrow> Some (store[p := None]))"

text \<open>
  \<open>v[n]\<close> on a \<open>std::vector\<close>: \<open>operator[]\<close> checks nothing, and outside the bounds the
  behaviour is undefined (\<open>None\<close>).
\<close>

definition subscript :: "'a list \<Rightarrow> nat \<Rightarrow> 'a option" where
  "subscript v n = (if n < length v then Some (v ! n) else None)"

subsection \<open>Outcomes of a method call\<close>

datatype ('a, 's) outcome =
    Returns 'a 's  \<comment> \<open>the call returns the value and leaves the state\<close>
  | Throws string 's  \<comment> \<open>a \<open>std::runtime_error\<close> with this message leaves the call; the state at the throw\<close>
  | Undefined  \<comment> \<open>undefined behaviour: nothing is known of the result or the state\<close>

text \<open>One statement after another: an exception and undefined behaviour end the sequence.\<close>

definition seq :: "('s \<Rightarrow> ('a, 's) outcome) \<Rightarrow> ('a \<Rightarrow> 's \<Rightarrow> ('b, 's) outcome) \<Rightarrow> 's \<Rightarrow> ('b, 's) outcome" where
  "seq m f s =
     (case m s of
        Returns a s' \<Rightarrow> f a s'
      | Throws msg s' \<Rightarrow> Throws msg s'
      | Undefined \<Rightarrow> Undefined)"

subsection \<open>The state\<close>

text \<open>The enumerations of GCS.h, with the enumerators the class and the README name.\<close>

datatype Algorithm = BFGS | LevenbergMarquardt | DogLeg

datatype DebugMode = NoDebug | Minimal | IterationLevel

text \<open>
  Modelled from the spec: the constraints are registered by the methods of
  add_constraint_functions.cpp.njk, which the class includes and which is not among the
  sources. A constraint carries an integer tag and the modifiers \<open>driving\<close> and
  \<open>temporary\<close>.
\<close>

record constraint =
  tag :: int
  driving :: bool
  temporary :: bool

text \<open>
  The two vectors of the class; of the base class \<open>System\<close> the member \<open>debugMode\<close>, which
  \<open>solve_system\<close> reads, and the registered constraints (modelled from the spec, as
  above); and what the methods reach outside the object: the free store and the console
  of \<open>console.log\<close>.
\<close>

record 'v GcsSystem =
  p_params :: "pointer list"
  is_fixed :: "bool list"
  debugMode :: DebugMode
  constraints :: "constraint list"
  free_store :: "'v option list"
  console :: "string list"

text \<open>
  The constructor: the base constructor runs, then both vectors are empty. The debug
  mode that \<open>System()\<close> sets (GCS.cpp) and the free store and console of the program at
  that moment are parameters.
\<close>

definition GcsSystem_new :: "DebugMode \<Rightarrow> 'v option list \<Rightarrow> string list \<Rightarrow> 'v GcsSystem" where
  "GcsSystem_new mode store out =
     \<lparr>p_params = [], is_fixed = [], debugMode = mode, constraints = [],
      free_store = store, console = out\<rparr>"

subsection \<open>The parameter store\<close>

definition params_size :: "'v GcsSystem \<Rightarrow> (int32, 'v GcsSystem) outcome" where
  "params_size s = Returns (to_int (length (p_params s))) s"

definition get_p_param :: "int32 \<Rightarrow> 'v GcsSystem \<Rightarrow> ('v, 'v GcsSystem) outcome" where
  "get_p_param i s =
     (case subscript (p_params s) (size_t i) of
        None \<Rightarrow> Undefined
      | Some p \<Rightarrow>
          (case deref (free_store s) p of
             None \<Rightarrow> Undefined
           | Some v \<Rightarrow> Returns v s))"

definition set_p_param :: "int32 \<Rightarrow> 'v \<Rightarrow> bool \<Rightarrow> 'v GcsSystem \<Rightarrow> (unit, 'v GcsSystem) outcome" where
  "set_p_param i v fixed s =
     (case subscript (p_params s) (size_t i) of
        None \<Rightarrow> Undefined
      | Some p \<Rightarrow>
          (case assign p v (free_store s) of
             None \<Rightarrow> Undefined
           | Some store \<Rightarrow>
               (case subscript (is_fixed s) (size_t i) of
                  None \<Rightarrow> Undefined
                | Some old \<Rightarrow>
                    Returns () (s\<lparr>free_store := store,
                                  is_fixed := (is_fixed s)[size_t i := fixed]\<rparr>))))"

definition push_p_param :: "'v \<Rightarrow> bool \<Rightarrow> 'v GcsSystem \<Rightarrow> (int32, 'v GcsSystem) outcome" where
  "push_p_param v fixed s =
     (let index = to_int (length (p_params s));
          (p, store) = new v (free_store s)
      in Returns index
           (s\<lparr>p_params := p_params s @ [p],
              is_fixed := is_fixed s @ [fixed],
              free_store := store\<rparr>))"

definition get_is_fixed :: "int32 \<Rightarrow> 'v GcsSystem \<Rightarrow> (bool, 'v GcsSystem) outcome" where
  "get_is_fixed i s =
     (case subscript (is_fixed s) (size_t i) of
        None \<Rightarrow> Undefined
      | Some fixed \<Rightarrow> Returns fixed s)"

text \<open>
  The loops of the class count with an \<open>int\<close> from 0 up to the size of a vector. The
  counter is a natural number here: \<open>params_size\<close> returns the size as an \<open>int\<close>, and a
  vector of more than \<open>2^31\<close> entries does not fit the address space.
\<close>

function get_p_params_loop :: "nat \<Rightarrow> 'v list \<Rightarrow> 'v GcsSystem \<Rightarrow> ('v list, 'v GcsSystem) outcome" where
  "get_p_params_loop i p s =
     (if i < length (p_params s) then
        (case deref (free_store s) (p_params s ! i) of
           None \<Rightarrow> Undefined
         | Some v \<Rightarrow> get_p_params_loop (i + 1) (p @ [v]) s)
      else Returns p s)"
  by pat_completeness auto
termination
  by (relation "measure (\<lambda>(i, p, s). length (p_params s) - i)") auto

declare get_p_params_loop.simps [simp del]

definition get_p_params :: "'v GcsSystem \<Rightarrow> ('v list, 'v GcsSystem) outcome" where
  "get_p_params = get_p_params_loop 0 []"

function delete_loop :: "nat \<Rightarrow> 'v GcsSystem \<Rightarrow> (unit, 'v GcsSystem) outcome" where
  "delete_loop i s =
     (if i < length (p_params s) then
        (case delete (p_params s ! i) (free_store s) of
           None \<Rightarrow> Undefined
         | Some store \<Rightarrow> delete_loop (i + 1) (s\<lparr>free_store := store\<rparr>))
      else Returns () s)"
  by pat_completeness auto
termination
  by (relation "measure (\<lambda>(i, s). length (p_params s) - i)") auto

declare delete_loop.simps [simp del]

text \<open>
  Modelled from the spec: \<open>System::clear()\<close> (GCS.cpp) is not among the sources. It is the
  full reset of the base class; of the members kept here it empties the registered
  constraints.
\<close>

definition clear :: "'v GcsSystem \<Rightarrow> (unit, 'v GcsSystem) outcome" where
  "clear s = Returns () (s\<lparr>constraints := []\<rparr>)"

definition clear_data :: "'v GcsSystem \<Rightarrow> (unit, 'v GcsSystem) outcome" where
  "clear_data =
     seq (delete_loop 0) (\<lambda>_.
     seq (\<lambda>s. Returns () (s\<lparr>p_params := []\<rparr>)) (\<lambda>_.
     seq (\<lambda>s. Returns () (s\<lparr>is_fixed := []\<rparr>)) (\<lambda>_.
     clear)))"

subsection \<open>Solving\<close>

text \<open>
  \<open>solve_system\<close> up to its last line: the loop that collects the parameters to solve for,
  and the line written to the console at the debug level \<open>IterationLevel\<close>. The \<open>int\<close> that
  the caller passes is cast to \<open>Algorithm\<close> on entry; the model starts from the cast value.
\<close>

function solved_p_params_loop :: "nat \<Rightarrow> pointer list \<Rightarrow> 'v GcsSystem \<Rightarrow> (pointer list, 'v GcsSystem) outcome" where
  "solved_p_params_loop i solved_p_params s =
     (if i < length (p_params s) then
        (case subscript (is_fixed s) i of
           None \<Rightarrow> Undefined
         | Some fixed \<Rightarrow>
             solved_p_params_loop (i + 1)
               (if \<not> fixed then solved_p_params @ [p_params s ! i] else solved_p_params) s)
      else Returns solved_p_params s)"
  by pat_completeness auto
termination
  by (relation "measure (\<lambda>(i, solved, s). length (p_params s) - i)") auto

declare solved_p_params_loop.simps [simp del]

definition log_algorithm :: "Algorithm \<Rightarrow> 'v GcsSystem \<Rightarrow> (unit, 'v GcsSystem) outcome" where
  "log_algorithm alg s =
     (if debugMode s = IterationLevel then
        (if alg = DogLeg then
           Returns () (s\<lparr>console := console s @ [''Solving with DogLeg\<newline>'']\<rparr>)
         else if alg = LevenbergMarquardt then
           Returns () (s\<lparr>console := console s @ [''Solving with LevenbergMarquardt\<newline>'']\<rparr>)
         else if alg = BFGS then
           Returns () (s\<lparr>console := console s @ [''Solving with BFGS\<newline>'']\<rparr>)
         else Returns () s)
      else Returns () s)"

text \<open>
  The last line, \<open>return solve(solved_p_params, true, alg)\<close>, calls \<open>System::solve\<close> of the
  solver library, which is a parameter of the model: a function of the three arguments
  that runs on the state. What it returns (the status, an \<open>int\<close>) is passed on as it
  is, so its type \<open>'r\<close> is left open.
\<close>

definition solve_system ::
  "(pointer list \<Rightarrow> bool \<Rightarrow> Algorithm \<Rightarrow> 'v GcsSystem \<Rightarrow> ('r, 'v GcsSystem) outcome) \<Rightarrow>
   Algorithm \<Rightarrow> 'v GcsSystem \<Rightarrow> ('r, 'v GcsSystem) outcome" where
  "solve_system solve alg =
     seq (solved_p_params_loop 0 []) (\<lambda>solved_p_params.
     seq (log_algorithm alg) (\<lambda>_.
     solve solved_p_params True alg))"

text \<open>
  Modelled from the spec: the algorithm a solve runs is chosen inside \<open>System::solve\<close>
  (GCS.cpp), which is not among the sources. It is the algorithm the caller asks for, or
  sequential quadratic programming (README, Solving; spec 4.5).
\<close>

datatype solver = Runs Algorithm | SQP

text \<open>
  Modelled from the spec: what a call of \<open>System::solve\<close> (GCS.cpp, not among the sources)
  is observed by, in place of the status it returns: the unknowns it was given, the flag,
  and the algorithm it ran.
\<close>

record solve_run =
  unknowns :: "pointer list"
  isFine :: bool
  algorithm :: solver

text \<open>
  Modelled from the spec: \<open>System::solve\<close> (GCS.cpp) is not among the sources. Of what it
  does, the model keeps the choice of the algorithm: SQP when a registered constraint is
  temporary, whatever algorithm it is called with, and the algorithm it is called with
  when none is (README, Solving; spec 4.5).
\<close>

definition System_solve ::
  "pointer list \<Rightarrow> bool \<Rightarrow> Algorithm \<Rightarrow> 'v GcsSystem \<Rightarrow> (solve_run, 'v GcsSystem) outcome" where
  "System_solve params fine alg s =
     Returns \<lparr>unknowns = params, isFine = fine,
              algorithm = (if list_ex temporary (constraints s) then SQP else Runs alg)\<rparr> s"

subsection \<open>Geometry from parameters\<close>

text \<open>
  The geometry classes are declared in Geo.h. Each record has the members that the
  method making the object assigns; a member that holds a parameter is a \<open>double *\<close>.
\<close>

record Point =
  point_x :: pointer
  point_y :: pointer

record Line =
  line_p1 :: Point
  line_p2 :: Point

record Circle =
  circle_center :: Point
  circle_rad :: pointer

record Ellipse =
  ellipse_center :: Point
  ellipse_focus1 :: Point
  ellipse_radmin :: pointer

record Hyperbola =
  hyperbola_center :: Point
  hyperbola_focus1 :: Point
  hyperbola_radmin :: pointer

record Parabola =
  parabola_focus1 :: Point
  parabola_vertex :: Point

record Arc =
  arc_center :: Point
  arc_start :: Point
  arc_startAngle :: pointer
  arc_endAngle :: pointer
  arc_end :: Point
  arc_rad :: pointer

record ArcOfEllipse =
  arc_of_ellipse_center :: Point
  arc_of_ellipse_start :: Point
  arc_of_ellipse_startAngle :: pointer
  arc_of_ellipse_end :: Point
  arc_of_ellipse_endAngle :: pointer
  arc_of_ellipse_radmin :: pointer
  arc_of_ellipse_focus1 :: Point

record ArcOfParabola =
  arc_of_parabola_start :: Point
  arc_of_parabola_startAngle :: pointer
  arc_of_parabola_end :: Point
  arc_of_parabola_endAngle :: pointer
  arc_of_parabola_focus1 :: Point
  arc_of_parabola_vertex :: Point

record ArcOfHyperbola =
  arc_of_hyperbola_center :: Point
  arc_of_hyperbola_start :: Point
  arc_of_hyperbola_startAngle :: pointer
  arc_of_hyperbola_end :: Point
  arc_of_hyperbola_endAngle :: pointer
  arc_of_hyperbola_radmin :: pointer
  arc_of_hyperbola_focus1 :: Point

record BSpline =
  bspline_start :: Point
  bspline_end :: Point
  bspline_degree :: int32
  bspline_periodic :: bool
  bspline_mult :: "int32 list"
  bspline_poles :: "Point list"
  bspline_weights :: "pointer list"
  bspline_knots :: "pointer list"

text \<open>
  \<open>p_param_or_fail\<close>. In \<open>p_params.size() <= i\<close> the index is converted to \<open>size_t\<close>, and
  so it is in the subscript.
\<close>

definition p_param_or_fail :: "int32 \<Rightarrow> 'v GcsSystem \<Rightarrow> (pointer, 'v GcsSystem) outcome" where
  "p_param_or_fail i s =
     (if length (p_params s) \<le> size_t i then
        Throws ''parameter index outside range'' s
      else
        (case subscript (p_params s) (size_t i) of
           None \<Rightarrow> Undefined
         | Some p \<Rightarrow> Returns p s))"

definition make_point :: "int32 \<Rightarrow> int32 \<Rightarrow> 'v GcsSystem \<Rightarrow> (Point, 'v GcsSystem) outcome" where
  "make_point px_i py_i =
     seq (p_param_or_fail px_i) (\<lambda>px.
     seq (p_param_or_fail py_i) (\<lambda>py.
     Returns \<lparr>point_x = px, point_y = py\<rparr>))"

definition make_line ::
  "int32 \<Rightarrow> int32 \<Rightarrow> int32 \<Rightarrow> int32 \<Rightarrow> 'v GcsSystem \<Rightarrow> (Line, 'v GcsSystem) outcome" where
  "make_line p1x_i p1y_i p2x_i p2y_i =
     seq (make_point p1x_i p1y_i) (\<lambda>p1.
     seq (make_point p2x_i p2y_i) (\<lambda>p2.
     Returns \<lparr>line_p1 = p1, line_p2 = p2\<rparr>))"

definition make_circle ::
  "int32 \<Rightarrow> int32 \<Rightarrow> int32 \<Rightarrow> 'v GcsSystem \<Rightarrow> (Circle, 'v GcsSystem) outcome" where
  "make_circle cx_i cy_i rad_i =
     seq (make_point cx_i cy_i) (\<lambda>cp.
     seq (p_param_or_fail rad_i) (\<lambda>rad.
     Returns \<lparr>circle_center = cp, circle_rad = rad\<rparr>))"

definition make_ellipse ::
  "int32 \<Rightarrow> int32 \<Rightarrow> int32 \<Rightarrow> int32 \<Rightarrow> int32 \<Rightarrow> 'v GcsSystem \<Rightarrow> (Ellipse, 'v GcsSystem) outcome" where
  "make_ellipse cx_i cy_i focus1x_i focus1y_i radmin_i =
     seq (make_point cx_i cy_i) (\<lambda>center.
     seq (make_point focus1x_i focus1y_i) (\<lambda>focus1.
     seq (p_param_or_fail radmin_i) (\<lambda>radmin.
     Returns \<lparr>ellipse_center = center, ellipse_focus1 = focus1, ellipse_radmin = radmin\<rparr>)))"

definition make_hyperbola ::
  "int32 \<Rightarrow> int32 \<Rightarrow> int32 \<Rightarrow> int32 \<Rightarrow> int32 \<Rightarrow> 'v GcsSystem \<Rightarrow> (Hyperbola, 'v GcsSystem) outcome" where
  "make_hyperbola cx_i cy_i focus1x_i focus1y_i radmin_i =
     seq (make_point cx_i cy_i) (\<lambda>center.
     seq (make_point focus1x_i focus1y_i) (\<lambda>focus1.
     seq (p_param_or_fail radmin_i) (\<lambda>radmin.
     Returns \<lparr>hyperbola_center = center, hyperbola_focus1 = focus1,
              hyperbola_radmin = radmin\<rparr>)))"

definition make_parabola ::
  "int32 \<Rightarrow> int32 \<Rightarrow> int32 \<Rightarrow> int32 \<Rightarrow> 'v GcsSystem \<Rightarrow> (Parabola, 'v GcsSystem) outcome" where
  "make_parabola vertexx_i vertexy_i focus1x_i focus1y_i =
     seq (make_point focus1x_i focus1y_i) (\<lambda>focus1.
     seq (make_point vertexx_i vertexy_i) (\<lambda>vertex.
     Returns \<lparr>parabola_focus1 = focus1, parabola_vertex = vertex\<rparr>))"

definition make_arc ::
  "int32 \<Rightarrow> int32 \<Rightarrow> int32 \<Rightarrow> int32 \<Rightarrow> int32 \<Rightarrow> int32 \<Rightarrow> int32 \<Rightarrow> int32 \<Rightarrow> int32 \<Rightarrow>
   'v GcsSystem \<Rightarrow> (Arc, 'v GcsSystem) outcome" where
  "make_arc cx_i cy_i startx_i starty_i endx_i endy_i startangle_i endangle_i rad_i =
     seq (make_point cx_i cy_i) (\<lambda>c.
     seq (make_point startx_i starty_i) (\<lambda>start.
     seq (make_point endx_i endy_i) (\<lambda>end'.
     seq (p_param_or_fail startangle_i) (\<lambda>startAngle.
     seq (p_param_or_fail endangle_i) (\<lambda>endAngle.
     seq (p_param_or_fail rad_i) (\<lambda>rad.
     Returns \<lparr>arc_center = c, arc_start = start, arc_startAngle = startAngle,
              arc_endAngle = endAngle, arc_end = end', arc_rad = rad\<rparr>))))))"

definition make_arc_of_ellipse ::
  "int32 \<Rightarrow> int32 \<Rightarrow> int32 \<Rightarrow> int32 \<Rightarrow> int32 \<Rightarrow> int32 \<Rightarrow> int32 \<Rightarrow> int32 \<Rightarrow> int32 \<Rightarrow> int32 \<Rightarrow> int32 \<Rightarrow>
   'v GcsSystem \<Rightarrow> (ArcOfEllipse, 'v GcsSystem) outcome" where
  "make_arc_of_ellipse cx_i cy_i focus1x_i focus1y_i startx_i starty_i endx_i endy_i
       startangle_i endangle_i radmin_i =
     seq (make_point cx_i cy_i) (\<lambda>center.
     seq (make_point startx_i starty_i) (\<lambda>start.
     seq (p_param_or_fail startangle_i) (\<lambda>startAngle.
     seq (make_point endx_i endy_i) (\<lambda>end'.
     seq (p_param_or_fail endangle_i) (\<lambda>endAngle.
     seq (p_param_or_fail radmin_i) (\<lambda>radmin.
     seq (make_point focus1x_i focus1y_i) (\<lambda>focus1.
     Returns \<lparr>arc_of_ellipse_center = center, arc_of_ellipse_start = start,
              arc_of_ellipse_startAngle = startAngle, arc_of_ellipse_end = end',
              arc_of_ellipse_endAngle = endAngle, arc_of_ellipse_radmin = radmin,
              arc_of_ellipse_focus1 = focus1\<rparr>)))))))"

definition make_arc_of_parabola ::
  "int32 \<Rightarrow> int32 \<Rightarrow> int32 \<Rightarrow> int32 \<Rightarrow> int32 \<Rightarrow> int32 \<Rightarrow> int32 \<Rightarrow> int32 \<Rightarrow> int32 \<Rightarrow> int32 \<Rightarrow>
   'v GcsSystem \<Rightarrow> (ArcOfParabola, 'v GcsSystem) outcome" where
  "make_arc_of_parabola vertexx_i vertexy_i focusx_i focusy_i startx_i starty_i endx_i endy_i
       startangle_i endangle_i =
     seq (make_point startx_i starty_i) (\<lambda>start.
     seq (p_param_or_fail startangle_i) (\<lambda>startAngle.
     seq (make_point endx_i endy_i) (\<lambda>end'.
     seq (p_param_or_fail endangle_i) (\<lambda>endAngle.
     seq (make_point focusx_i focusy_i) (\<lambda>focus1.
     seq (make_point vertexx_i vertexy_i) (\<lambda>vertex.
     Returns \<lparr>arc_of_parabola_start = start, arc_of_parabola_startAngle = startAngle,
              arc_of_parabola_end = end', arc_of_parabola_endAngle = endAngle,
              arc_of_parabola_focus1 = focus1, arc_of_parabola_vertex = vertex\<rparr>))))))"

definition make_arc_of_hyperbola ::
  "int32 \<Rightarrow> int32 \<Rightarrow> int32 \<Rightarrow> int32 \<Rightarrow> int32 \<Rightarrow> int32 \<Rightarrow> int32 \<Rightarrow> int32 \<Rightarrow> int32 \<Rightarrow> int32 \<Rightarrow> int32 \<Rightarrow>
   'v GcsSystem \<Rightarrow> (ArcOfHyperbola, 'v GcsSystem) outcome" where
  "make_arc_of_hyperbola cx_i cy_i focus1x_i focus1y_i startx_i starty_i endx_i endy_i
       startangle_i endangle_i radmin_i =
     seq (make_point cx_i cy_i) (\<lambda>center.
     seq (make_point startx_i starty_i) (\<lambda>start.
     seq (p_param_or_fail startangle_i) (\<lambda>startAngle.
     seq (make_point endx_i endy_i) (\<lambda>end'.
     seq (p_param_or_fail endangle_i) (\<lambda>endAngle.
     seq (p_param_or_fail radmin_i) (\<lambda>radmin.
     seq (make_point focus1x_i focus1y_i) (\<lambda>focus1.
     Returns \<lparr>arc_of_hyperbola_center = center, arc_of_hyperbola_start = start,
              arc_of_hyperbola_startAngle = startAngle, arc_of_hyperbola_end = end',
              arc_of_hyperbola_endAngle = endAngle, arc_of_hyperbola_radmin = radmin,
              arc_of_hyperbola_focus1 = focus1\<rparr>)))))))"

text \<open>
  The first loop of \<open>make_bspline\<close>. Both arguments of \<open>make_point\<close> are read before the
  call: when \<open>i + 1\<close> is the size of the vector, \<open>poles_xy_i[i + 1]\<close> reads behind its last
  element.
\<close>

function poles_loop ::
  "int32 list \<Rightarrow> nat \<Rightarrow> Point list \<Rightarrow> 'v GcsSystem \<Rightarrow> (Point list, 'v GcsSystem) outcome" where
  "poles_loop poles_xy_i i poles s =
     (if i < length poles_xy_i then
        (case (subscript poles_xy_i i, subscript poles_xy_i (i + 1)) of
           (Some px_i, Some py_i) \<Rightarrow>
             (case make_point px_i py_i s of
                Returns p s' \<Rightarrow> poles_loop poles_xy_i (i + 2) (poles @ [p]) s'
              | Throws msg s' \<Rightarrow> Throws msg s'
              | Undefined \<Rightarrow> Undefined)
         | _ \<Rightarrow> Undefined)
      else Returns poles s)"
  by pat_completeness auto
termination
  by (relation "measure (\<lambda>(poles_xy_i, i, poles, s). length poles_xy_i - i)") auto

declare poles_loop.simps [simp del]

text \<open>The second and the third loop, over \<open>weights_i\<close> and over \<open>knots_i\<close>.\<close>

function params_loop ::
  "int32 list \<Rightarrow> nat \<Rightarrow> pointer list \<Rightarrow> 'v GcsSystem \<Rightarrow> (pointer list, 'v GcsSystem) outcome" where
  "params_loop params_i i params s =
     (if i < length params_i then
        (case subscript params_i i of
           None \<Rightarrow> Undefined
         | Some param_i \<Rightarrow>
             (case p_param_or_fail param_i s of
                Returns p s' \<Rightarrow> params_loop params_i (i + 1) (params @ [p]) s'
              | Throws msg s' \<Rightarrow> Throws msg s'
              | Undefined \<Rightarrow> Undefined))
      else Returns params s)"
  by pat_completeness auto
termination
  by (relation "measure (\<lambda>(params_i, i, params, s). length params_i - i)") auto

declare params_loop.simps [simp del]

definition make_bspline ::
  "int32 \<Rightarrow> int32 \<Rightarrow> int32 \<Rightarrow> int32 \<Rightarrow> int32 list \<Rightarrow> int32 list \<Rightarrow> int32 list \<Rightarrow> int32 list \<Rightarrow>
   int32 \<Rightarrow> bool \<Rightarrow> 'v GcsSystem \<Rightarrow> (BSpline, 'v GcsSystem) outcome" where
  "make_bspline startx_i starty_i endx_i endy_i poles_xy_i weights_i knots_i mult degree periodic =
     seq (make_point startx_i starty_i) (\<lambda>start.
     seq (make_point endx_i endy_i) (\<lambda>end'.
     seq (poles_loop poles_xy_i 0 []) (\<lambda>poles.
     seq (params_loop weights_i 0 []) (\<lambda>weights.
     seq (params_loop knots_i 0 []) (\<lambda>knots.
     Returns \<lparr>bspline_start = start, bspline_end = end', bspline_degree = degree,
              bspline_periodic = periodic, bspline_mult = mult, bspline_poles = poles,
              bspline_weights = weights, bspline_knots = knots\<rparr>)))))"

subsection \<open>The calls that make geometry\<close>

text \<open>
  The bindings export one \<open>make_\<close> method per geometry class. A call names the method and
  carries its arguments; it returns the object the method returns.
\<close>

datatype make_call =
    Make_point int32 int32
  | Make_line int32 int32 int32 int32
  | Make_circle int32 int32 int32
  | Make_ellipse int32 int32 int32 int32 int32
  | Make_hyperbola int32 int32 int32 int32 int32
  | Make_parabola int32 int32 int32 int32
  | Make_arc int32 int32 int32 int32 int32 int32 int32 int32 int32
  | Make_arc_of_ellipse int32 int32 int32 int32 int32 int32 int32 int32 int32 int32 int32
  | Make_arc_of_parabola int32 int32 int32 int32 int32 int32 int32 int32 int32 int32
  | Make_arc_of_hyperbola int32 int32 int32 int32 int32 int32 int32 int32 int32 int32 int32
  | Make_bspline int32 int32 int32 int32 "int32 list" "int32 list" "int32 list" "int32 list"
      int32 bool

datatype GcsGeometry =
    GPoint Point
  | GLine Line
  | GCircle Circle
  | GEllipse Ellipse
  | GHyperbola Hyperbola
  | GParabola Parabola
  | GArc Arc
  | GArcOfEllipse ArcOfEllipse
  | GArcOfParabola ArcOfParabola
  | GArcOfHyperbola ArcOfHyperbola
  | GBSpline BSpline

fun call :: "make_call \<Rightarrow> 'v GcsSystem \<Rightarrow> (GcsGeometry, 'v GcsSystem) outcome" where
  "call (Make_point a b) = seq (make_point a b) (\<lambda>g. Returns (GPoint g))"
| "call (Make_line a b c d) = seq (make_line a b c d) (\<lambda>g. Returns (GLine g))"
| "call (Make_circle a b c) = seq (make_circle a b c) (\<lambda>g. Returns (GCircle g))"
| "call (Make_ellipse a b c d e) = seq (make_ellipse a b c d e) (\<lambda>g. Returns (GEllipse g))"
| "call (Make_hyperbola a b c d e) =
     seq (make_hyperbola a b c d e) (\<lambda>g. Returns (GHyperbola g))"
| "call (Make_parabola a b c d) = seq (make_parabola a b c d) (\<lambda>g. Returns (GParabola g))"
| "call (Make_arc a b c d e f g h i) =
     seq (make_arc a b c d e f g h i) (\<lambda>g. Returns (GArc g))"
| "call (Make_arc_of_ellipse a b c d e f g h i j k) =
     seq (make_arc_of_ellipse a b c d e f g h i j k) (\<lambda>g. Returns (GArcOfEllipse g))"
| "call (Make_arc_of_parabola a b c d e f g h i j) =
     seq (make_arc_of_parabola a b c d e f g h i j) (\<lambda>g. Returns (GArcOfParabola g))"
| "call (Make_arc_of_hyperbola a b c d e f g h i j k) =
     seq (make_arc_of_hyperbola a b c d e f g h i j k) (\<lambda>g. Returns (GArcOfHyperbola g))"
| "call (Make_bspline a b c d poles_xy_i weights_i knots_i mult degree periodic) =
     seq (make_bspline a b c d poles_xy_i weights_i knots_i mult degree periodic)
       (\<lambda>g. Returns (GBSpline g))"

text \<open>
  The parameter indices a call passes: the arguments named \<open>..._i\<close>. The multiplicities,
  the degree and the flag of a B-spline are not indices.
\<close>

fun indices :: "make_call \<Rightarrow> int32 list" where
  "indices (Make_point a b) = [a, b]"
| "indices (Make_line a b c d) = [a, b, c, d]"
| "indices (Make_circle a b c) = [a, b, c]"
| "indices (Make_ellipse a b c d e) = [a, b, c, d, e]"
| "indices (Make_hyperbola a b c d e) = [a, b, c, d, e]"
| "indices (Make_parabola a b c d) = [a, b, c, d]"
| "indices (Make_arc a b c d e f g h i) = [a, b, c, d, e, f, g, h, i]"
| "indices (Make_arc_of_ellipse a b c d e f g h i j k) = [a, b, c, d, e, f, g, h, i, j, k]"
| "indices (Make_arc_of_parabola a b c d e f g h i j) = [a, b, c, d, e, f, g, h, i, j]"
| "indices (Make_arc_of_hyperbola a b c d e f g h i j k) = [a, b, c, d, e, f, g, h, i, j, k]"
| "indices (Make_bspline a b c d poles_xy_i weights_i knots_i mult degree periodic) =
     [a, b, c, d] @ poles_xy_i @ weights_i @ knots_i"

text \<open>The poles of a B-spline come in pairs: \<open>poles_xy_i\<close> has an even length.\<close>

fun paired :: "make_call \<Rightarrow> bool" where
  "paired (Make_bspline a b c d poles_xy_i weights_i knots_i mult degree periodic) =
     even (length poles_xy_i)"
| "paired c = True"

text \<open>
  On a list of odd length the last round of the loop over the poles reads
  \<open>poles_xy_i[i + 1]\<close> one element behind the list. The value \<open>g\<close> that the read yields is
  passed to \<open>make_point\<close>, and so to \<open>p_param_or_fail\<close>, like an element of the list: the
  call then runs as the call with \<open>g\<close> appended to the list does. A call with a list of
  even length makes no such read and stays as it is.
\<close>

fun completed :: "int32 \<Rightarrow> make_call \<Rightarrow> make_call" where
  "completed g (Make_bspline a b c d poles_xy_i weights_i knots_i mult degree periodic) =
     Make_bspline a b c d (if even (length poles_xy_i) then poles_xy_i else poles_xy_i @ [g])
       weights_i knots_i mult degree periodic"
| "completed g c = c"

subsection \<open>Sequences of operations on the parameter store\<close>

datatype 'v store_op =
    Push_p_param 'v bool
  | Set_p_param int32 'v bool
  | Clear_data

fun apply_op :: "'v store_op \<Rightarrow> 'v GcsSystem \<Rightarrow> (unit, 'v GcsSystem) outcome" where
  "apply_op (Push_p_param v fixed) = seq (push_p_param v fixed) (\<lambda>index. Returns ())"
| "apply_op (Set_p_param i v fixed) = set_p_param i v fixed"
| "apply_op Clear_data = clear_data"

fun run :: "'v store_op list \<Rightarrow> 'v GcsSystem \<Rightarrow> (unit, 'v GcsSystem) outcome" where
  "run [] s = Returns () s"
| "run (c # cs) s =
     (case apply_op c s of
        Returns u s' \<Rightarrow> run cs s'
      | Throws msg s' \<Rightarrow> Throws msg s'
      | Undefined \<Rightarrow> Undefined)"

subsection \<open>Predicates on states\<close>

text \<open>An index that has been allocated: \<open>0 <= i < size()\<close>, read as the \<open>int\<close> it is.\<close>

definition in_range :: "'v GcsSystem \<Rightarrow> int32 \<Rightarrow> bool" where
  "in_range s i \<longleftrightarrow> 0 \<le> sint i \<and> sint i < int (length (p_params s))"

text \<open>
  The states the class is in between calls: every parameter has its flag and its own
  live cell of the free store.
\<close>

definition store_inv :: "'v GcsSystem \<Rightarrow> bool" where
  "store_inv s \<longleftrightarrow>
     length (is_fixed s) = length (p_params s) \<and>
     distinct (p_params s) \<and>
     list_all (\<lambda>p. deref (free_store s) p \<noteq> None) (p_params s)"

text \<open>
  A method that checks indices: it returns and leaves the state when \<open>ok\<close> holds, and
  throws the error of \<open>p_param_or_fail\<close> and leaves the state when it does not.
\<close>

definition checked :: "'v GcsSystem \<Rightarrow> ('v GcsSystem \<Rightarrow> ('a, 'v GcsSystem) outcome) \<Rightarrow> bool \<Rightarrow> bool" where
  "checked s m ok \<longleftrightarrow>
     (if ok then \<exists>a. m s = Returns a s else m s = Throws ''parameter index outside range'' s)"

text \<open>The point that pair \<open>k\<close> of the list \<open>v\<close> of pole indices makes in state \<open>s\<close>.\<close>

definition pole :: "'v GcsSystem \<Rightarrow> int32 list \<Rightarrow> nat \<Rightarrow> Point" where
  "pole s v k = \<lparr>point_x = p_params s ! size_t (v ! (2 * k)),
                point_y = p_params s ! size_t (v ! (2 * k + 1))\<rparr>"

subsection \<open>Two states to evaluate on\<close>

text \<open>
  The state after three calls of \<open>push_p_param\<close>, with the values 10, 20 and 30 and the
  second one fixed, on a system made at the debug level \<open>IterationLevel\<close> when one cell of
  the free store had been allocated and deleted before; and the same state with one
  temporary constraint registered.
\<close>

definition example_store :: "int GcsSystem" where
  "example_store =
     \<lparr>p_params = [1, 2, 3], is_fixed = [False, True, False], debugMode = IterationLevel,
      constraints = [], free_store = [None, Some 10, Some 20, Some 30], console = []\<rparr>"

definition dragging :: "int GcsSystem" where
  "dragging = example_store\<lparr>constraints := [\<lparr>tag = - 1, driving = True, temporary = True\<rparr>]\<rparr>"

section \<open>Properties of the resolver\<close>

text \<open>
  C2. For a B-spline with c control points, w weights and k knots the resolver returns
  2*c + w + k for \<open>start_x\<close> and the next three numbers for \<open>start_y\<close>, \<open>end_x\<close> and
  \<open>end_y\<close>.
\<close>

theorem bspline_offsets:
  assumes "type p = bspline"
  shows "get_property_offset p ''start_x'' =
           Inr (Number (2 * length (control_points p) + length (weights p) + length (knots p) + 0))
       \<and> get_property_offset p ''start_y'' =
           Inr (Number (2 * length (control_points p) + length (weights p) + length (knots p) + 1))
       \<and> get_property_offset p ''end_x'' =
           Inr (Number (2 * length (control_points p) + length (weights p) + length (knots p) + 2))
       \<and> get_property_offset p ''end_y'' =
           Inr (Number (2 * length (control_points p) + length (weights p) + length (knots p) + 3))"
  using assms by (simp add: get_property_offset_def js_own_def)

text \<open>
  The instance of C2 with 4 control points, 4 weights and 8 knots: the offsets are 20,
  21, 22 and 23.
\<close>

theorem bspline_offsets_witness:
  "type \<lparr>type = bspline, control_points = [''1'', ''2'', ''3'', ''4''],
         weights = [1, 1, 1, 1 :: int], knots = [0, 0, 0, 0, 1, 1, 1, 1]\<rparr> = bspline
   \<and> get_property_offset \<lparr>type = bspline, control_points = [''1'', ''2'', ''3'', ''4''],
         weights = [1, 1, 1, 1 :: int], knots = [0, 0, 0, 0, 1, 1, 1, 1]\<rparr> ''start_x''
       = Inr (Number 20)
   \<and> get_property_offset \<lparr>type = bspline, control_points = [''1'', ''2'', ''3'', ''4''],
         weights = [1, 1, 1, 1 :: int], knots = [0, 0, 0, 0, 1, 1, 1, 1]\<rparr> ''start_y''
       = Inr (Number 21)
   \<and> get_property_offset \<lparr>type = bspline, control_points = [''1'', ''2'', ''3'', ''4''],
         weights = [1, 1, 1, 1 :: int], knots = [0, 0, 0, 0, 1, 1, 1, 1]\<rparr> ''end_x''
       = Inr (Number 22)
   \<and> get_property_offset \<lparr>type = bspline, control_points = [''1'', ''2'', ''3'', ''4''],
         weights = [1, 1, 1, 1 :: int], knots = [0, 0, 0, 0, 1, 1, 1, 1]\<rparr> ''end_y''
       = Inr (Number 23)"
  using bspline_offsets [of "\<lparr>type = bspline, control_points = [''1'', ''2'', ''3'', ''4''],
         weights = [1, 1, 1, 1 :: int], knots = [0, 0, 0, 0, 1, 1, 1, 1]\<rparr>"]
  by simp

text \<open>
  C6. For every shape \<open>p\<close> of a kind of fixed arity the resolver returns the offset of the
  table: point x = 0, y = 1; circle radius = 0; arc start_angle = 0, end_angle = 1,
  radius = 2; ellipse and hyperbola radmin = 0; arc_of_ellipse and arc_of_hyperbola
  start_angle = 0, end_angle = 1, radmin = 2; arc_of_parabola start_angle = 0,
  end_angle = 1. For a parabola and for a line no property name resolves to an offset.
\<close>

theorem fixed_kind_offsets:
  "get_property_offset (p\<lparr>type := point\<rparr>) ''x'' = Inr (Number 0)
   \<and> get_property_offset (p\<lparr>type := point\<rparr>) ''y'' = Inr (Number 1)
   \<and> get_property_offset (p\<lparr>type := circle\<rparr>) ''radius'' = Inr (Number 0)
   \<and> get_property_offset (p\<lparr>type := arc\<rparr>) ''start_angle'' = Inr (Number 0)
   \<and> get_property_offset (p\<lparr>type := arc\<rparr>) ''end_angle'' = Inr (Number 1)
   \<and> get_property_offset (p\<lparr>type := arc\<rparr>) ''radius'' = Inr (Number 2)
   \<and> get_property_offset (p\<lparr>type := ellipse\<rparr>) ''radmin'' = Inr (Number 0)
   \<and> get_property_offset (p\<lparr>type := hyperbola\<rparr>) ''radmin'' = Inr (Number 0)
   \<and> get_property_offset (p\<lparr>type := arc_of_ellipse\<rparr>) ''start_angle'' = Inr (Number 0)
   \<and> get_property_offset (p\<lparr>type := arc_of_ellipse\<rparr>) ''end_angle'' = Inr (Number 1)
   \<and> get_property_offset (p\<lparr>type := arc_of_ellipse\<rparr>) ''radmin'' = Inr (Number 2)
   \<and> get_property_offset (p\<lparr>type := arc_of_hyperbola\<rparr>) ''start_angle'' = Inr (Number 0)
   \<and> get_property_offset (p\<lparr>type := arc_of_hyperbola\<rparr>) ''end_angle'' = Inr (Number 1)
   \<and> get_property_offset (p\<lparr>type := arc_of_hyperbola\<rparr>) ''radmin'' = Inr (Number 2)
   \<and> get_property_offset (p\<lparr>type := arc_of_parabola\<rparr>) ''start_angle'' = Inr (Number 0)
   \<and> get_property_offset (p\<lparr>type := arc_of_parabola\<rparr>) ''end_angle'' = Inr (Number 1)
   \<and> (\<forall>k n. get_property_offset (p\<lparr>type := parabola\<rparr>) k \<noteq> Inr (Number n))
   \<and> (\<forall>k n. get_property_offset (p\<lparr>type := line\<rparr>) k \<noteq> Inr (Number n))"
  by (simp add: get_property_offset_def js_get_def)

text \<open>
  C6 on a shape with two control points, two weights and three knots, whatever its kind
  is set to.
\<close>

theorem fixed_kind_offsets_witness:
  "get_property_offset
     (\<lparr>type = bspline, control_points = [''1'', ''2''], weights = [1, 1 :: int],
       knots = [0, 1, 2]\<rparr>\<lparr>type := point\<rparr>) ''y'' = Inr (Number 1)
   \<and> get_property_offset
     (\<lparr>type = bspline, control_points = [''1'', ''2''], weights = [1, 1 :: int],
       knots = [0, 1, 2]\<rparr>\<lparr>type := arc\<rparr>) ''radius'' = Inr (Number 2)
   \<and> get_property_offset
     (\<lparr>type = bspline, control_points = [''1'', ''2''], weights = [1, 1 :: int],
       knots = [0, 1, 2]\<rparr>\<lparr>type := line\<rparr>) ''x'' \<noteq> Inr (Number 0)"
  using fixed_kind_offsets [of "\<lparr>type = bspline, control_points = [''1'', ''2''],
       weights = [1, 1 :: int], knots = [0, 1, 2]\<rparr>"]
  by simp

text \<open>
  For a kind other than the B-spline, the names that resolve to an offset are the names
  of the kind's table, each with the offset the table gives.
\<close>

lemma offset_iff_table:
  "type p \<noteq> bspline \<Longrightarrow>
   get_property_offset p k = Inr (Number n) \<longleftrightarrow> map_of (property_offsets (type p)) k = Some n"
  by (auto simp add: get_property_offset_def js_get_def split: option.splits)

lemma declared_not_inherited:
  "k \<in> set SketchGeometryProperty \<Longrightarrow> k \<notin> set Object_prototype"
  by (auto simp add: SketchGeometryProperty_def Object_prototype_def)

text \<open>
  Where the resolver does throw: for every kind and every property name that is not in
  the kind's table (for a B-spline: not one of its four names) it throws the error
  "Unknown property ... for primitive <kind>" when the kind is the B-spline, or the name
  is one of the declared type \<open>SketchGeometryProperty\<close>, or the name is not a member of
  \<open>Object.prototype\<close>.
\<close>

lemma unknown_property:
  assumes "map_of (property_offsets (type p)) k = None"
    and "type p = bspline \<or> k \<in> set SketchGeometryProperty \<or> k \<notin> set Object_prototype"
  shows "get_property_offset p k =
           Inl (Error (''Unknown property '' @ k @ '' for primitive <'' @ type_name (type p) @ ''>''))"
proof (cases "type p = bspline")
  case True
  with assms(1) show ?thesis
    by (simp add: get_property_offset_def split: if_splits)
next
  case False
  with assms(2) have "k \<notin> set Object_prototype"
    using declared_not_inherited by blast
  with False assms(1) show ?thesis
    by (simp add: get_property_offset_def js_get_def)
qed

text \<open>
  Where it does not: for every kind but the B-spline, each of the twelve names that an
  object literal inherits is in no table, and the resolver returns the inherited member
  for it.
\<close>

lemma inherited_member:
  assumes "type p \<noteq> bspline" and "k \<in> set Object_prototype"
  shows "map_of (property_offsets (type p)) k = None"
    and "get_property_offset p k = Inr (Inherited k)"
proof -
  show none: "map_of (property_offsets (type p)) k = None"
    using assms(2) by (cases "type p") (auto simp add: Object_prototype_def)
  show "get_property_offset p k = Inr (Inherited k)"
    using assms none by (simp add: get_property_offset_def js_get_def)
qed

text \<open>
  C7, evaluated. \<open>toString\<close> is not a property of the table of a point, and the resolver
  does not throw for it: the property read finds the member that every object literal
  inherits, the test \<open>offset !== undefined\<close> passes, and the member is returned where a
  number is declared. For the same name the branch of the B-spline throws the error, and
  so does the branch of the point for the name \<open>nonexistent_property\<close>.
\<close>

theorem inherited_member_returned:
  "map_of (property_offsets point) ''toString'' = None
   \<and> get_property_offset
        \<lparr>type = point, control_points = [], weights = [] :: int list, knots = []\<rparr> ''toString''
       = Inr (Inherited ''toString'')
   \<and> get_property_offset
        \<lparr>type = bspline, control_points = [], weights = [] :: int list, knots = []\<rparr> ''toString''
       = Inl (Error ''Unknown property toString for primitive <bspline>'')
   \<and> get_property_offset
        \<lparr>type = point, control_points = [], weights = [] :: int list, knots = []\<rparr>
        ''nonexistent_property''
       = Inl (Error ''Unknown property nonexistent_property for primitive <point>'')"
  by (simp add: get_property_offset_def js_get_def Object_prototype_def)

section \<open>Indices: the \<open>int\<close> and its conversion to \<open>size_t\<close>\<close>

lemma uint_of_sint: "uint (i :: int32) = sint i mod 2 ^ 32"
  by (simp add: uint_sint take_bit_eq_mod)

lemma sint_bounds: "- (2 ^ 31) \<le> sint (i :: int32) \<and> sint i < 2 ^ 31"
  using sint_ge [of i] sint_lt [of i] by simp

lemma size_t_nonneg:
  assumes "0 \<le> sint (i :: int32)"
  shows "int (size_t i) = sint i"
proof -
  have "sint i < 2 ^ 32" using sint_bounds [of i] by simp
  with assms have "sint i mod 2 ^ 32 = sint i" by simp
  then show ?thesis by (simp add: size_t_def uint_of_sint)
qed

text \<open>A negative index is, as a \<open>size_t\<close>, at least \<open>2^31\<close>.\<close>

lemma size_t_neg:
  assumes "sint (i :: int32) < 0"
  shows "2 ^ 31 \<le> size_t i"
proof -
  have lo: "- (2 ^ 31) \<le> sint i" using sint_bounds [of i] by simp
  have "sint i mod 2 ^ 32 = (sint i + 2 ^ 32) mod 2 ^ 32" by simp
  also have "\<dots> = sint i + 2 ^ 32" using lo assms by (intro mod_pos_pos_trivial) simp_all
  finally have "uint i = sint i + 2 ^ 32" by (simp add: uint_of_sint)
  with lo have "2 ^ 31 \<le> uint i" by simp
  then have "int (2 ^ 31) \<le> int (size_t i)" by (simp add: size_t_def)
  then show ?thesis by (simp only: of_nat_le_iff)
qed

text \<open>
  So the one comparison of \<open>p_param_or_fail\<close> rejects the negative indices too, in every
  store whose size an \<open>int\<close> can hold.
\<close>

lemma in_range_iff:
  assumes "length (p_params s) \<le> 2 ^ 31"
  shows "in_range s i \<longleftrightarrow> size_t i < length (p_params s)"
proof (cases "0 \<le> sint i")
  case True
  then show ?thesis
    using size_t_nonneg [OF True] by (simp add: in_range_def) linarith
next
  case False
  then have "2 ^ 31 \<le> size_t i" using size_t_neg [of i] by simp
  with assms False show ?thesis by (simp add: in_range_def)
qed

lemma size_t_to_int:
  assumes "n < 2 ^ 31"
  shows "size_t (to_int n) = n" and "sint (to_int n) = int n"
proof -
  from assms have small: "n < 2 ^ 32" by simp
  then show "size_t (to_int n) = n"
    by (simp add: size_t_def to_int_def unat_of_nat)
  have "take_bit 32 n = n"
    using small by (rule take_bit_nat_eq_self)
  then have "sint (word_of_nat n :: int32) = signed_take_bit 31 (int n)"
    by (simp add: sint_uint unsigned_of_nat)
  also have "\<dots> = int n"
    using assms by (intro signed_take_bit_int_eq_self) simp_all
  finally show "sint (to_int n) = int n" by (simp add: to_int_def)
qed

section \<open>The parameter store\<close>

subsection \<open>The accessors\<close>

lemma deref_Some_less: "deref store p \<noteq> None \<Longrightarrow> p < length store"
  by (simp add: deref_def split: if_splits)

lemma deref_update:
  "deref store q \<noteq> None \<Longrightarrow> deref (store[p := Some v]) q \<noteq> None"
  by (cases "p = q") (auto simp add: deref_def split: if_splits)

lemma store_inv_live:
  assumes "store_inv s" and "n < length (p_params s)"
  shows "deref (free_store s) (p_params s ! n) \<noteq> None"
  using assms by (simp add: store_inv_def list_all_length)

lemma push_p_param_eq:
  "push_p_param v fixed s =
     Returns (to_int (length (p_params s)))
       (s\<lparr>p_params := p_params s @ [length (free_store s)],
          is_fixed := is_fixed s @ [fixed],
          free_store := free_store s @ [Some v]\<rparr>)"
  by (simp add: push_p_param_def new_def)

lemma set_p_param_eq:
  assumes "store_inv s" and "size_t i < length (p_params s)"
  shows "set_p_param i v fixed s =
           Returns () (s\<lparr>free_store := (free_store s)[p_params s ! size_t i := Some v],
                         is_fixed := (is_fixed s)[size_t i := fixed]\<rparr>)"
proof -
  have "deref (free_store s) (p_params s ! size_t i) \<noteq> None"
    using assms by (rule store_inv_live)
  moreover have "length (is_fixed s) = length (p_params s)"
    using assms(1) by (simp add: store_inv_def)
  ultimately show ?thesis
    using assms(2) by (auto simp add: set_p_param_def subscript_def assign_def)
qed

text \<open>
  No accessor looks at the size: outside the vector each of them has undefined
  behaviour, where \<open>p_param_or_fail\<close> throws.
\<close>

lemma accessors_outside:
  assumes "length (p_params s) \<le> size_t i" and "length (is_fixed s) \<le> size_t i"
  shows "get_p_param i s = Undefined"
    and "set_p_param i v fixed s = Undefined"
    and "get_is_fixed i s = Undefined"
    and "p_param_or_fail i s = Throws ''parameter index outside range'' s"
  using assms
  by (simp_all add: get_p_param_def set_p_param_def get_is_fixed_def p_param_or_fail_def
      subscript_def)

text \<open>
  C1, evaluated: on a system that has just been made every index is out of range. The
  three accessors do not fail with an error there: the subscript is unchecked and the
  behaviour is undefined, while \<open>p_param_or_fail\<close> throws for the same index. The same
  holds for the index 0, valid before, once \<open>clear_data\<close> has emptied the store.
\<close>

theorem accessors_unchecked:
  "get_p_param i (GcsSystem_new mode store out) = Undefined
   \<and> set_p_param i v fixed (GcsSystem_new mode store out) = Undefined
   \<and> get_is_fixed i (GcsSystem_new mode store out) = Undefined
   \<and> p_param_or_fail i (GcsSystem_new mode store out) =
       Throws ''parameter index outside range'' (GcsSystem_new mode store out)
   \<and> get_p_param 0 example_store = Returns 10 example_store
   \<and> seq clear_data (\<lambda>u. get_p_param 0) example_store = Undefined
   \<and> seq clear_data (\<lambda>u. set_p_param 0 11 True) example_store = Undefined
   \<and> seq clear_data (\<lambda>u. get_is_fixed 0) example_store = Undefined"
  by (simp add: get_p_param_def set_p_param_def get_is_fixed_def p_param_or_fail_def
      subscript_def GcsSystem_new_def example_store_def seq_def clear_data_def clear_def
      delete_loop.simps delete_def deref_def size_t_def)

text \<open>
  C8. In a state between calls whose size an \<open>int\<close> can hold, \<open>push_p_param\<close> returns the
  size of the store as the new index and makes the store one longer, and right after it
  \<open>get_p_param\<close> at that index returns the value pushed and \<open>get_is_fixed\<close> the flag
  pushed. After \<open>set_p_param\<close> at an index in range, \<open>get_p_param\<close> and \<open>get_is_fixed\<close> at
  that index return the value and the flag that were set. The first index, on a system
  that has just been made, is 0.
\<close>

theorem push_then_get:
  assumes "store_inv s" and "length (p_params s) < 2 ^ 31"
  shows "(\<exists>index s'. push_p_param v fixed s = Returns index s'
            \<and> sint index = int (length (p_params s))
            \<and> length (p_params s') = Suc (length (p_params s))
            \<and> get_p_param index s' = Returns v s'
            \<and> get_is_fixed index s' = Returns fixed s')
       \<and> (in_range s i \<longrightarrow>
            (\<exists>s'. set_p_param i v' fixed' s = Returns () s'
               \<and> get_p_param i s' = Returns v' s'
               \<and> get_is_fixed i s' = Returns fixed' s'))
       \<and> (\<exists>s'. push_p_param v fixed (GcsSystem_new mode store out) = Returns 0 s')"
proof (intro conjI impI)
  have len: "length (is_fixed s) = length (p_params s)"
    using assms(1) by (simp add: store_inv_def)
  have flag: "(is_fixed s @ [fixed]) ! length (p_params s) = fixed"
    using len by (metis nth_append_length)
  show "\<exists>index s'. push_p_param v fixed s = Returns index s'
            \<and> sint index = int (length (p_params s))
            \<and> length (p_params s') = Suc (length (p_params s))
            \<and> get_p_param index s' = Returns v s'
            \<and> get_is_fixed index s' = Returns fixed s'"
    by (simp add: push_p_param_eq size_t_to_int [OF assms(2)] get_p_param_def get_is_fixed_def
        subscript_def deref_def len flag)
next
  assume "in_range s i"
  with assms(2) have i: "size_t i < length (p_params s)"
    by (simp add: in_range_iff)
  have live: "p_params s ! size_t i < length (free_store s)"
    using store_inv_live [OF assms(1) i] by (rule deref_Some_less)
  have len: "length (is_fixed s) = length (p_params s)"
    using assms(1) by (simp add: store_inv_def)
  show "\<exists>s'. set_p_param i v' fixed' s = Returns () s'
               \<and> get_p_param i s' = Returns v' s'
               \<and> get_is_fixed i s' = Returns fixed' s'"
    by (simp add: set_p_param_eq [OF assms(1) i] get_p_param_def get_is_fixed_def
        subscript_def deref_def i live len)
next
  show "\<exists>s'. push_p_param v fixed (GcsSystem_new mode store out) = Returns 0 s'"
    by (simp add: push_p_param_eq GcsSystem_new_def to_int_def)
qed

text \<open>
  C8 on the example: pushing 40 as a fixed parameter returns the index 3, and setting
  the parameter 1 to 25 and free is read back.
\<close>

theorem push_then_get_witness:
  "store_inv example_store
   \<and> length (p_params example_store) < 2 ^ 31
   \<and> in_range example_store 1
   \<and> push_p_param 40 True example_store
      = Returns 3 (example_store\<lparr>p_params := [1, 2, 3, 4],
                      is_fixed := [False, True, False, True],
                      free_store := [None, Some 10, Some 20, Some 30, Some 40]\<rparr>)
   \<and> get_p_param 3 (example_store\<lparr>p_params := [1, 2, 3, 4],
                      is_fixed := [False, True, False, True],
                      free_store := [None, Some 10, Some 20, Some 30, Some 40]\<rparr>)
      = Returns 40 (example_store\<lparr>p_params := [1, 2, 3, 4],
                      is_fixed := [False, True, False, True],
                      free_store := [None, Some 10, Some 20, Some 30, Some 40]\<rparr>)
   \<and> get_is_fixed 3 (example_store\<lparr>p_params := [1, 2, 3, 4],
                      is_fixed := [False, True, False, True],
                      free_store := [None, Some 10, Some 20, Some 30, Some 40]\<rparr>)
      = Returns True (example_store\<lparr>p_params := [1, 2, 3, 4],
                      is_fixed := [False, True, False, True],
                      free_store := [None, Some 10, Some 20, Some 30, Some 40]\<rparr>)
   \<and> set_p_param 1 25 False example_store
      = Returns () (example_store\<lparr>is_fixed := [False, False, False],
                      free_store := [None, Some 10, Some 25, Some 30]\<rparr>)
   \<and> get_p_param 1 (example_store\<lparr>is_fixed := [False, False, False],
                      free_store := [None, Some 10, Some 25, Some 30]\<rparr>)
      = Returns 25 (example_store\<lparr>is_fixed := [False, False, False],
                      free_store := [None, Some 10, Some 25, Some 30]\<rparr>)
   \<and> get_is_fixed 1 (example_store\<lparr>is_fixed := [False, False, False],
                      free_store := [None, Some 10, Some 25, Some 30]\<rparr>)
      = Returns False (example_store\<lparr>is_fixed := [False, False, False],
                      free_store := [None, Some 10, Some 25, Some 30]\<rparr>)"
  using push_then_get [of example_store 40 True 1 25 False]
  by (simp add: example_store_def store_inv_def in_range_def deref_def push_p_param_eq
      to_int_def get_p_param_def get_is_fixed_def set_p_param_def subscript_def size_t_def
      assign_def)

subsection \<open>Sequences of operations\<close>

lemma delete_loop_state:
  "delete_loop i s = Returns u s' \<Longrightarrow> p_params s' = p_params s \<and> is_fixed s' = is_fixed s"
proof (induction "length (p_params s) - i" arbitrary: i s)
  case 0
  then show ?case by (subst (asm) delete_loop.simps) simp
next
  case (Suc n)
  then have less: "i < length (p_params s)" by simp
  from Suc.prems obtain store where
    d: "delete (p_params s ! i) (free_store s) = Some store"
    and r: "delete_loop (Suc i) (s\<lparr>free_store := store\<rparr>) = Returns u s'"
    by (subst (asm) delete_loop.simps) (simp add: less split: option.splits)
  from Suc.hyps(2) have "n = length (p_params (s\<lparr>free_store := store\<rparr>)) - Suc i" by simp
  from Suc.hyps(1) [OF this r] show ?case by simp
qed

lemma clear_data_state:
  assumes "clear_data s = Returns u s'"
  shows "p_params s' = [] \<and> is_fixed s' = []"
  using assms by (auto simp add: clear_data_def seq_def clear_def split: outcome.splits)

lemma apply_op_lengths:
  assumes "apply_op c s = Returns u s'" and "length (p_params s) = length (is_fixed s)"
  shows "length (p_params s') = length (is_fixed s')"
proof (cases c)
  case (Push_p_param v fixed)
  with assms show ?thesis by (auto simp add: seq_def push_p_param_eq)
next
  case (Set_p_param i v fixed)
  with assms show ?thesis
    by (auto simp add: set_p_param_def split: option.splits)
next
  case Clear_data
  with assms clear_data_state [of s u s'] show ?thesis by simp
qed

lemma run_lengths:
  "run cs s = Returns u s' \<Longrightarrow> length (p_params s) = length (is_fixed s) \<Longrightarrow>
     length (p_params s') = length (is_fixed s')"
proof (induction cs arbitrary: s)
  case Nil
  then show ?case by simp
next
  case (Cons c cs)
  from Cons.prems(1) obtain u1 s1 where a: "apply_op c s = Returns u1 s1"
    and r: "run cs s1 = Returns u s'"
    by (auto split: outcome.splits)
  from apply_op_lengths [OF a Cons.prems(2)] Cons.IH [OF r] show ?case by simp
qed

text \<open>
  C9. After the constructor and any sequence of calls of \<open>push_p_param\<close>, \<open>set_p_param\<close>
  and \<open>clear_data\<close>, the vectors \<open>p_params\<close> and \<open>is_fixed\<close> have the same length.
\<close>

theorem vectors_same_length:
  assumes "run cs (GcsSystem_new mode store out) = Returns u s"
  shows "length (p_params s) = length (is_fixed s)"
  using run_lengths [OF assms] by (simp add: GcsSystem_new_def)

text \<open>C9 on a sequence of five calls, which leaves one parameter and one flag.\<close>

theorem vectors_same_length_witness:
  "run [Push_p_param 10 False, Push_p_param 20 True, Set_p_param 1 25 False, Clear_data,
        Push_p_param 30 False] (GcsSystem_new NoDebug [] [])
     = Returns ()
         \<lparr>p_params = [2], is_fixed = [False], debugMode = NoDebug, constraints = [],
          free_store = [None, None, Some (30 :: int)], console = []\<rparr>
   \<and> length (p_params \<lparr>p_params = [2], is_fixed = [False], debugMode = NoDebug, constraints = [],
          free_store = [None, None, Some (30 :: int)], console = []\<rparr>)
     = length (is_fixed \<lparr>p_params = [2], is_fixed = [False], debugMode = NoDebug, constraints = [],
          free_store = [None, None, Some (30 :: int)], console = []\<rparr>)"
proof -
  have r: "run [Push_p_param 10 False, Push_p_param 20 True, Set_p_param 1 25 False, Clear_data,
        Push_p_param 30 False] (GcsSystem_new NoDebug [] [])
     = Returns ()
         \<lparr>p_params = [2], is_fixed = [False], debugMode = NoDebug, constraints = [],
          free_store = [None, None, Some (30 :: int)], console = []\<rparr>"
    by (simp add: GcsSystem_new_def seq_def push_p_param_eq set_p_param_def subscript_def
        size_t_def assign_def deref_def clear_data_def clear_def delete_loop.simps delete_def)
  from r vectors_same_length [OF r] show ?thesis by simp
qed

subsection \<open>The states between calls\<close>

text \<open>
  The constructor establishes \<open>store_inv\<close>, and every operation on the store that returns
  keeps it; in such a state \<open>clear_data\<close> deletes every cell once and returns. So the
  hypotheses of C8 and of the theorems on solving hold whenever the class is used
  through these methods.
\<close>

lemma store_inv_push:
  assumes "store_inv s"
  shows "store_inv (s\<lparr>p_params := p_params s @ [length (free_store s)],
          is_fixed := is_fixed s @ [fixed],
          free_store := free_store s @ [Some v]\<rparr>)"
proof -
  have "\<forall>p\<in>set (p_params s). p < length (free_store s)"
    using assms deref_Some_less by (fastforce simp add: store_inv_def list_all_iff)
  with assms show ?thesis
    by (auto simp add: store_inv_def list_all_iff deref_def nth_append)
qed

lemma store_inv_set:
  assumes "store_inv s"
  shows "store_inv (s\<lparr>free_store := (free_store s)[p := Some v],
                      is_fixed := (is_fixed s)[n := fixed]\<rparr>)"
proof -
  have live: "\<forall>q\<in>set (p_params s). deref (free_store s) q \<noteq> None"
    using assms by (simp add: store_inv_def list_all_iff)
  have "\<forall>q\<in>set (p_params s). deref ((free_store s)[p := Some v]) q \<noteq> None"
  proof
    fix q
    assume "q \<in> set (p_params s)"
    with live have "deref (free_store s) q \<noteq> None" by (rule bspec)
    then show "deref ((free_store s)[p := Some v]) q \<noteq> None" by (rule deref_update)
  qed
  with assms show ?thesis
    by (simp add: store_inv_def list_all_iff)
qed

lemma delete_loop_returns:
  assumes "distinct (p_params s)"
    and "\<forall>j. i \<le> j \<and> j < length (p_params s) \<longrightarrow> deref (free_store s) (p_params s ! j) \<noteq> None"
  shows "\<exists>s'. delete_loop i s = Returns () s'"
  using assms
proof (induction "length (p_params s) - i" arbitrary: i s)
  case 0
  then show ?case by (subst delete_loop.simps) simp
next
  case (Suc n)
  then have less: "i < length (p_params s)" by simp
  let ?p = "p_params s ! i"
  let ?s = "s\<lparr>free_store := (free_store s)[?p := None]\<rparr>"
  from Suc.prems(2) less have live: "deref (free_store s) ?p \<noteq> None" by simp
  then have d: "delete ?p (free_store s) = Some ((free_store s)[?p := None])"
    by (auto simp add: delete_def)
  have rest: "\<forall>j. Suc i \<le> j \<and> j < length (p_params ?s) \<longrightarrow>
          deref (free_store ?s) (p_params ?s ! j) \<noteq> None"
  proof (intro allI impI)
    fix j
    assume j: "Suc i \<le> j \<and> j < length (p_params ?s)"
    then have "p_params s ! j \<noteq> ?p"
      using Suc.prems(1) less by (simp add: nth_eq_iff_index_eq)
    moreover from j Suc.prems(2) have "deref (free_store s) (p_params s ! j) \<noteq> None" by simp
    ultimately show "deref (free_store ?s) (p_params ?s ! j) \<noteq> None"
      by (simp add: deref_def split: if_splits)
  qed
  have dist: "distinct (p_params ?s)" using Suc.prems(1) by simp
  from Suc.hyps(2) have n: "n = length (p_params ?s) - Suc i" by simp
  have "\<exists>s'. delete_loop (Suc i) ?s = Returns () s'"
    using n dist rest by (rule Suc.hyps(1))
  then show ?case
    by (subst delete_loop.simps) (simp add: less d)
qed

lemma clear_data_returns:
  assumes "store_inv s"
  shows "\<exists>s'. clear_data s = Returns () s'"
proof -
  have "distinct (p_params s)" using assms by (simp add: store_inv_def)
  moreover have "\<forall>j. 0 \<le> j \<and> j < length (p_params s) \<longrightarrow>
      deref (free_store s) (p_params s ! j) \<noteq> None"
    using assms store_inv_live by blast
  ultimately obtain s' where "delete_loop 0 s = Returns () s'"
    using delete_loop_returns by blast
  then show ?thesis by (simp add: clear_data_def seq_def clear_def)
qed

lemma apply_op_store_inv:
  assumes "apply_op c s = Returns u s'" and "store_inv s"
  shows "store_inv s'"
proof (cases c)
  case (Push_p_param v fixed)
  with assms store_inv_push [OF assms(2)] show ?thesis
    by (auto simp add: seq_def push_p_param_eq)
next
  case (Set_p_param i v fixed)
  with assms(1) have "size_t i < length (p_params s)"
    by (auto simp add: set_p_param_def subscript_def split: option.splits if_splits)
  from set_p_param_eq [OF assms(2) this] assms(1) Set_p_param store_inv_set [OF assms(2)]
  show ?thesis by auto
next
  case Clear_data
  with assms clear_data_state [of s u s'] show ?thesis by (simp add: store_inv_def)
qed

lemma run_store_inv:
  "run cs s = Returns u s' \<Longrightarrow> store_inv s \<Longrightarrow> store_inv s'"
proof (induction cs arbitrary: s)
  case Nil
  then show ?case by simp
next
  case (Cons c cs)
  from Cons.prems(1) obtain u1 s1 where a: "apply_op c s = Returns u1 s1"
    and r: "run cs s1 = Returns u s'"
    by (auto split: outcome.splits)
  from apply_op_store_inv [OF a Cons.prems(2)] Cons.IH [OF r] show ?case by simp
qed

lemma reachable_store_inv:
  assumes "run cs (GcsSystem_new mode store out) = Returns u s"
  shows "store_inv s"
  using run_store_inv [OF assms] by (simp add: GcsSystem_new_def store_inv_def)

lemma example_store_reachable:
  "run [Push_p_param 10 False, Push_p_param 20 True, Push_p_param 30 False]
     (GcsSystem_new IterationLevel [None] []) = Returns () example_store"
  by (simp add: GcsSystem_new_def example_store_def seq_def push_p_param_eq)

section \<open>Geometry from parameters\<close>

subsection \<open>Methods that check their indices\<close>

lemma checked_seq:
  assumes "checked s m ok1" and "\<And>a. checked s (f a) ok2"
  shows "checked s (seq m f) (ok1 \<and> ok2)"
  using assms by (auto simp add: checked_def seq_def split: if_splits)

lemma checked_Returns: "checked s (Returns a) True"
  by (simp add: checked_def)

lemma checked_cong: "checked s m ok \<Longrightarrow> ok = ok' \<Longrightarrow> checked s m ok'"
  by simp

lemma p_param_or_fail_eq:
  assumes "length (p_params s) \<le> 2 ^ 31"
  shows "p_param_or_fail i s =
           (if in_range s i then Returns (p_params s ! size_t i) s
            else Throws ''parameter index outside range'' s)"
  by (simp add: p_param_or_fail_def subscript_def in_range_iff [OF assms])

lemma make_point_eq:
  assumes "length (p_params s) \<le> 2 ^ 31"
  shows "make_point a b s =
           (if in_range s a \<and> in_range s b
            then Returns \<lparr>point_x = p_params s ! size_t a, point_y = p_params s ! size_t b\<rparr> s
            else Throws ''parameter index outside range'' s)"
  by (simp add: make_point_def seq_def p_param_or_fail_eq [OF assms])

lemma checked_param:
  "length (p_params s) \<le> 2 ^ 31 \<Longrightarrow> checked s (p_param_or_fail i) (in_range s i)"
  by (simp add: checked_def p_param_or_fail_eq)

lemma checked_point:
  "length (p_params s) \<le> 2 ^ 31 \<Longrightarrow> checked s (make_point a b) (in_range s a \<and> in_range s b)"
  by (simp add: checked_def make_point_eq)

subsection \<open>The loops of \<open>make_bspline\<close>\<close>

lemma params_loop_eq:
  assumes "length (p_params s) \<le> 2 ^ 31"
  shows "params_loop v i acc s =
           (if list_all (in_range s) (drop i v)
            then Returns (acc @ map (\<lambda>j. p_params s ! size_t j) (drop i v)) s
            else Throws ''parameter index outside range'' s)"
proof (induction "length v - i" arbitrary: i acc)
  case 0
  then show ?case by (subst params_loop.simps) simp
next
  case (Suc n)
  then have less: "i < length v" by simp
  from Suc have "n = length v - Suc i" by simp
  note IH = Suc.hyps(1) [OF this]
  have drop: "drop i v = v ! i # drop (Suc i) v"
    using less by (simp add: Cons_nth_drop_Suc)
  show ?case
    by (subst params_loop.simps)
      (simp add: less subscript_def p_param_or_fail_eq [OF assms] IH drop)
qed

lemma checked_params_loop:
  assumes "length (p_params s) \<le> 2 ^ 31"
  shows "checked s (params_loop v 0 []) (list_all (in_range s) v)"
  by (simp add: checked_def params_loop_eq [OF assms])

text \<open>
  On a list of even length the loop over the poles takes the indices two by two, from
  the even position \<open>i\<close> on.
\<close>

lemma poles_loop_eq:
  assumes "length (p_params s) \<le> 2 ^ 31"
  shows "even i \<Longrightarrow> even (length v) \<Longrightarrow> poles_loop v i acc s =
           (if list_all (in_range s) (drop i v)
            then Returns (acc @ map (pole s v) [i div 2..<length v div 2]) s
            else Throws ''parameter index outside range'' s)"
proof (induction "length v - i" arbitrary: i acc rule: less_induct)
  case less
  show ?case
  proof (cases "i < length v")
    case False
    then have "length v div 2 \<le> i div 2" by simp
    with False show ?thesis by (subst poles_loop.simps) simp
  next
    case True
    with less.prems have less2: "Suc i < length v"
      by (metis Suc_lessI even_Suc)
    have drop: "drop i v = v ! i # v ! Suc i # drop (Suc (Suc i)) v"
      using less2 by (simp add: Cons_nth_drop_Suc [symmetric])
    have IH: "poles_loop v (Suc (Suc i)) acc' s =
           (if list_all (in_range s) (drop (Suc (Suc i)) v)
            then Returns (acc' @ map (pole s v) [Suc (i div 2)..<length v div 2]) s
            else Throws ''parameter index outside range'' s)" for acc'
      using less.hyps [of "Suc (Suc i)" acc'] less.prems True by simp
    have idx: "i div 2 < length v div 2"
      using less2 less.prems by presburger
    have upt: "[i div 2..<length v div 2] = i div 2 # [Suc (i div 2)..<length v div 2]"
      using idx by (simp add: upt_conv_Cons)
    have p: "pole s v (i div 2) =
        \<lparr>point_x = p_params s ! size_t (v ! i), point_y = p_params s ! size_t (v ! Suc i)\<rparr>"
      using less.prems(1) by (simp add: pole_def)
    show ?thesis
      by (subst poles_loop.simps)
        (simp add: True less2 subscript_def make_point_eq [OF assms] IH drop upt p)
  qed
qed

text \<open>
  On a list of odd length whose indices are all in range, the last round reads
  \<open>poles_xy_i[i + 1]\<close> behind the end of the list.
\<close>

lemma poles_loop_odd:
  assumes "length (p_params s) \<le> 2 ^ 31"
  shows "even i \<Longrightarrow> odd (length v) \<Longrightarrow> i \<le> length v \<Longrightarrow>
           list_all (in_range s) (drop i v) \<Longrightarrow> poles_loop v i acc s = Undefined"
proof (induction "length v - i" arbitrary: i acc rule: less_induct)
  case less
  from less.prems(1,2,3) have ilt: "i < length v"
    by (cases "i = length v") auto
  show ?case
  proof (cases "Suc i < length v")
    case False
    with ilt show ?thesis by (subst poles_loop.simps) (simp add: subscript_def)
  next
    case True
    have drop: "drop i v = v ! i # v ! Suc i # drop (Suc (Suc i)) v"
      using True by (simp add: Cons_nth_drop_Suc [symmetric])
    have IH: "poles_loop v (Suc (Suc i)) acc' s = Undefined" for acc'
      using less.hyps [of "Suc (Suc i)" acc'] less.prems True drop by simp
    show ?thesis
      using less.prems(4)
      by (subst poles_loop.simps)
        (simp add: True ilt subscript_def make_point_eq [OF assms] IH drop)
  qed
qed

text \<open>Whatever the indices are, on a list of odd length the loop never returns.\<close>

lemma poles_loop_odd_never_returns:
  "even i \<Longrightarrow> odd (length v) \<Longrightarrow> i \<le> length v \<Longrightarrow> poles_loop v i acc s \<noteq> Returns r s'"
proof (induction "length v - i" arbitrary: i acc s rule: less_induct)
  case less
  from less.prems(1,2,3) have ilt: "i < length v"
    by (cases "i = length v") auto
  show ?case
  proof (cases "Suc i < length v")
    case False
    with ilt show ?thesis by (subst poles_loop.simps) (simp add: subscript_def)
  next
    case True
    have IH: "poles_loop v (Suc (Suc i)) acc' s1 \<noteq> Returns r s'" for acc' s1
      using less.hyps [of "Suc (Suc i)" acc' s1] less.prems True by simp
    show ?thesis
      by (subst poles_loop.simps)
        (simp add: True ilt subscript_def IH split: outcome.splits)
  qed
qed

lemma checked_poles_loop:
  assumes "length (p_params s) \<le> 2 ^ 31" and "even (length v)"
  shows "checked s (poles_loop v 0 []) (list_all (in_range s) v)"
  using assms(2) by (simp add: checked_def poles_loop_eq [OF assms(1)])

subsection \<open>Every call that makes geometry\<close>

lemmas checked_rules = checked_seq checked_point checked_param checked_Returns
  checked_params_loop checked_poles_loop

lemma checked_call:
  assumes "length (p_params s) \<le> 2 ^ 31" and "paired c"
  shows "checked s (call c) (list_all (in_range s) (indices c))"
proof (cases c)
  case Make_point
  then show ?thesis unfolding Make_point call.simps indices.simps make_point_def
    by - ((rule checked_cong), (rule checked_rules assms(1) | simp)+)
next
  case Make_line
  then show ?thesis unfolding Make_line call.simps indices.simps make_line_def
    by - ((rule checked_cong), (rule checked_rules assms(1) | simp)+)
next
  case Make_circle
  then show ?thesis unfolding Make_circle call.simps indices.simps make_circle_def
    by - ((rule checked_cong), (rule checked_rules assms(1) | simp)+)
next
  case Make_ellipse
  then show ?thesis unfolding Make_ellipse call.simps indices.simps make_ellipse_def
    by - ((rule checked_cong), (rule checked_rules assms(1) | simp)+)
next
  case Make_hyperbola
  then show ?thesis unfolding Make_hyperbola call.simps indices.simps make_hyperbola_def
    by - ((rule checked_cong), (rule checked_rules assms(1) | simp)+)
next
  case Make_parabola
  then show ?thesis unfolding Make_parabola call.simps indices.simps make_parabola_def
    by - ((rule checked_cong), (rule checked_rules assms(1) | auto)+)
next
  case Make_arc
  then show ?thesis unfolding Make_arc call.simps indices.simps make_arc_def
    by - ((rule checked_cong), (rule checked_rules assms(1) | auto)+)
next
  case Make_arc_of_ellipse
  then show ?thesis
    unfolding Make_arc_of_ellipse call.simps indices.simps make_arc_of_ellipse_def
    by - ((rule checked_cong), (rule checked_rules assms(1) | auto)+)
next
  case Make_arc_of_parabola
  then show ?thesis
    unfolding Make_arc_of_parabola call.simps indices.simps make_arc_of_parabola_def
    by - ((rule checked_cong), (rule checked_rules assms(1) | auto)+)
next
  case Make_arc_of_hyperbola
  then show ?thesis
    unfolding Make_arc_of_hyperbola call.simps indices.simps make_arc_of_hyperbola_def
    by - ((rule checked_cong), (rule checked_rules assms(1) | auto)+)
next
  case (Make_bspline a b c' d poles_xy_i weights_i knots_i mult degree periodic)
  with assms(2) have ev: "even (length poles_xy_i)" by simp
  show ?thesis unfolding Make_bspline call.simps indices.simps make_bspline_def
    by (rule checked_cong) (rule checked_rules assms(1) ev | auto)+
qed

text \<open>
  The call on an unpaired list and the call with the value of the stray read appended:
  up to the stray read both run alike, so either the first has reached the read
  (undefined behaviour, by the letter of the language) or both have thrown the same
  error before.
\<close>

lemma paired_completed: "paired (completed g c)"
  by (cases c) simp_all

lemma completed_paired: "paired c \<Longrightarrow> completed g c = c"
  by (cases c) simp_all

lemma indices_completed: "set (indices c) \<subseteq> set (indices (completed g c))"
  by (cases c) auto

lemma poles_loop_unpaired:
  fixes s :: "'v GcsSystem"
  shows "even i \<Longrightarrow> odd (length v) \<Longrightarrow> i \<le> length v \<Longrightarrow>
     poles_loop v i acc s = Undefined
     \<or> (\<exists>msg s'. poles_loop v i acc s = Throws msg s'
                 \<and> poles_loop (v @ [g]) i acc s = Throws msg s')"
proof (induction "length v - i" arbitrary: i acc s rule: less_induct)
  case less
  from less.prems(1,2,3) have ilt: "i < length v"
    by (cases "i = length v") auto
  show ?case
  proof (cases "Suc i < length v")
    case False
    with ilt show ?thesis by (subst poles_loop.simps) (simp add: subscript_def)
  next
    case True
    have IH: "poles_loop v (i + 2) acc' s1 = Undefined
      \<or> (\<exists>msg s'. poles_loop v (i + 2) acc' s1 = Throws msg s'
                 \<and> poles_loop (v @ [g]) (i + 2) acc' s1 = Throws msg s')"
      for acc' and s1 :: "'v GcsSystem"
      using less.hyps [of "i + 2" acc' s1] less.prems True by simp
    have L: "poles_loop v i acc s =
        (case make_point (v ! i) (v ! (i + 1)) s of
           Returns p s1 \<Rightarrow> poles_loop v (i + 2) (acc @ [p]) s1
         | Throws msg s1 \<Rightarrow> Throws msg s1
         | Undefined \<Rightarrow> Undefined)"
      by (subst poles_loop.simps) (simp add: True ilt subscript_def)
    have R: "poles_loop (v @ [g]) i acc s =
        (case make_point (v ! i) (v ! (i + 1)) s of
           Returns p s1 \<Rightarrow> poles_loop (v @ [g]) (i + 2) (acc @ [p]) s1
         | Throws msg s1 \<Rightarrow> Throws msg s1
         | Undefined \<Rightarrow> Undefined)"
      using ilt True by (subst poles_loop.simps) (simp add: subscript_def nth_append less_SucI)
    show ?thesis
      unfolding L R using IH by (simp split: outcome.splits)
  qed
qed

lemma seq_same_head:
  assumes "\<And>a s1. m s = Returns a s1 \<Longrightarrow> f a s1 = Undefined \<or> f a s1 = f' a s1"
  shows "seq m f s = Undefined \<or> seq m f s = seq m f' s"
  using assms by (auto simp add: seq_def split: outcome.splits)

lemma seq_thrown_head:
  assumes "m s = Undefined \<or> (\<exists>msg s'. m s = Throws msg s' \<and> m' s = Throws msg s')"
  shows "seq m k s = Undefined \<or> seq m k s = seq m' k s"
  using assms by (auto simp add: seq_def)

lemma seq_same_tail:
  assumes "m s = Undefined \<or> m s = m' s"
  shows "seq m k s = Undefined \<or> seq m k s = seq m' k s"
  using assms by (auto simp add: seq_def)

lemma call_unpaired:
  fixes s :: "'v GcsSystem"
  shows "call c s = Undefined \<or> call c s = call (completed g c) s"
proof (cases "paired c")
  case True
  then show ?thesis by (simp add: completed_paired)
next
  case False
  then obtain a b c' d poles_xy_i weights_i knots_i mult degree periodic where
    c: "c = Make_bspline a b c' d poles_xy_i weights_i knots_i mult degree periodic"
    by (cases c) simp_all
  with False have odd: "odd (length poles_xy_i)" by simp
  have poles: "poles_loop poles_xy_i 0 [] s1 = Undefined
     \<or> (\<exists>msg s'. poles_loop poles_xy_i 0 [] s1 = Throws msg s'
                 \<and> poles_loop (poles_xy_i @ [g]) 0 [] s1 = Throws msg s')"
    for s1 :: "'v GcsSystem"
    using odd by (intro poles_loop_unpaired) simp_all
  have "make_bspline a b c' d poles_xy_i weights_i knots_i mult degree periodic s = Undefined
     \<or> make_bspline a b c' d poles_xy_i weights_i knots_i mult degree periodic s
       = make_bspline a b c' d (poles_xy_i @ [g]) weights_i knots_i mult degree periodic s"
    unfolding make_bspline_def
    by (intro seq_same_head seq_thrown_head poles)
  then show ?thesis
    unfolding c using odd by (simp add: seq_same_tail)
qed

text \<open>
  C5. In a store whose size an \<open>int\<close> can hold, for every call \<open>c\<close> that makes geometry,
  and, where \<open>c\<close> is a \<open>make_bspline\<close> on a list of poles of odd length, for every value
  \<open>g\<close> that its read behind the list yields: when one of the indices that \<open>c\<close> passes is
  not allocated (negative, or not less than the size), the call throws the error
  "parameter index outside range" to its caller; when all indices it reads are
  allocated it returns the object; it does nothing else, and in both cases it leaves the
  state (values, flags and size) as it was. A call on point pairs is its own completion,
  and the call on an unpaired list differs from its completion only in that the read
  behind the list is undefined behaviour by the letter of the language.
\<close>

theorem make_checks_indices:
  assumes "length (p_params s) \<le> 2 ^ 31"
  shows "(list_ex (\<lambda>i. \<not> in_range s i) (indices c) \<longrightarrow>
            call (completed g c) s = Throws ''parameter index outside range'' s)
       \<and> (list_all (in_range s) (indices (completed g c)) \<longrightarrow>
            (\<exists>x. call (completed g c) s = Returns x s))
       \<and> (call (completed g c) s = Throws ''parameter index outside range'' s
            \<or> (\<exists>x. call (completed g c) s = Returns x s))
       \<and> (paired c \<longrightarrow> completed g c = c)
       \<and> (call c s = Undefined \<or> call c s = call (completed g c) s)"
  using checked_call [OF assms paired_completed, of g c] indices_completed [of c g]
    call_unpaired [of c s g]
  by (auto simp add: checked_def completed_paired list_ex_iff list_all_iff split: if_splits)

text \<open>
  C5 on the example store of three parameters: a line with the index 3 and a circle
  with the index -1 throw and leave the store; a B-spline of two poles with all indices
  allocated is made, and the store is left; and the B-spline with the one pole index 0
  and the weight index 7, which is not allocated, throws and leaves the store, whether
  the read behind the list yields an index that is allocated (2) or one that is not (9).
\<close>

theorem make_checks_indices_witness:
  "length (p_params example_store) \<le> 2 ^ 31
   \<and> completed 0 (Make_line 0 1 2 3) = Make_line 0 1 2 3
   \<and> list_ex (\<lambda>i. \<not> in_range example_store i) (indices (Make_line 0 1 2 3))
   \<and> call (Make_line 0 1 2 3) example_store
        = Throws ''parameter index outside range'' example_store
   \<and> completed 0 (Make_circle 0 1 (- 1)) = Make_circle 0 1 (- 1)
   \<and> list_ex (\<lambda>i. \<not> in_range example_store i) (indices (Make_circle 0 1 (- 1)))
   \<and> call (Make_circle 0 1 (- 1)) example_store
        = Throws ''parameter index outside range'' example_store
   \<and> completed 0 (Make_bspline 0 1 2 0 [0, 1, 2, 0] [1] [2] [4, 4] 3 False)
        = Make_bspline 0 1 2 0 [0, 1, 2, 0] [1] [2] [4, 4] 3 False
   \<and> list_all (in_range example_store)
        (indices (Make_bspline 0 1 2 0 [0, 1, 2, 0] [1] [2] [4, 4] 3 False))
   \<and> (\<exists>x. call (Make_bspline 0 1 2 0 [0, 1, 2, 0] [1] [2] [4, 4] 3 False) example_store
            = Returns x example_store)
   \<and> list_ex (\<lambda>i. \<not> in_range example_store i)
        (indices (Make_bspline 0 1 0 1 [0] [7] [] [] 3 False))
   \<and> completed 2 (Make_bspline 0 1 0 1 [0] [7] [] [] 3 False)
        = Make_bspline 0 1 0 1 [0, 2] [7] [] [] 3 False
   \<and> call (Make_bspline 0 1 0 1 [0, 2] [7] [] [] 3 False) example_store
        = Throws ''parameter index outside range'' example_store
   \<and> completed 9 (Make_bspline 0 1 0 1 [0] [7] [] [] 3 False)
        = Make_bspline 0 1 0 1 [0, 9] [7] [] [] 3 False
   \<and> call (Make_bspline 0 1 0 1 [0, 9] [7] [] [] 3 False) example_store
        = Throws ''parameter index outside range'' example_store"
  using make_checks_indices [of example_store "Make_line 0 1 2 3" 0]
    make_checks_indices [of example_store "Make_circle 0 1 (- 1)" 0]
    make_checks_indices [of example_store "Make_bspline 0 1 2 0 [0, 1, 2, 0] [1] [2] [4, 4] 3 False" 0]
    make_checks_indices [of example_store "Make_bspline 0 1 0 1 [0] [7] [] [] 3 False" 2]
    make_checks_indices [of example_store "Make_bspline 0 1 0 1 [0] [7] [] [] 3 False" 9]
  by (simp add: example_store_def in_range_def)

subsection \<open>The poles of a B-spline\<close>

lemma make_bspline_odd_never_returns:
  fixes s :: "'v GcsSystem"
  assumes "odd (length poles_xy_i)"
  shows "make_bspline startx_i starty_i endx_i endy_i poles_xy_i weights_i knots_i
           mult degree periodic s \<noteq> Returns bs s'"
proof
  assume "make_bspline startx_i starty_i endx_i endy_i poles_xy_i weights_i knots_i
            mult degree periodic s = Returns bs s'"
  then obtain s1 :: "'v GcsSystem" and r s2 where "poles_loop poles_xy_i 0 [] s1 = Returns r s2"
    by (auto simp add: make_bspline_def seq_def split: outcome.splits)
  moreover have "poles_loop poles_xy_i 0 [] s1 \<noteq> Returns r s2"
    using assms by (intro poles_loop_odd_never_returns) simp_all
  ultimately show False by simp
qed

text \<open>
  C10. When all indices passed are allocated (in a store whose size an \<open>int\<close> can hold):
  for a list \<open>poles_xy_i\<close> of length \<open>2 * n\<close>, \<open>make_bspline\<close> returns a B-spline with
  exactly \<open>n\<close> poles, the pole \<open>k\<close> made of the parameters at the indices
  \<open>poles_xy_i[2 * k]\<close> (its x) and \<open>poles_xy_i[2 * k + 1]\<close> (its y); for a list of odd
  length the last round of the loop reads one element behind the end of the list, and
  the behaviour of the call is undefined. No check of the length precedes the loop.
\<close>

theorem make_bspline_poles:
  assumes "length (p_params s) \<le> 2 ^ 31"
    and "list_all (in_range s)
           ([startx_i, starty_i, endx_i, endy_i] @ poles_xy_i @ weights_i @ knots_i)"
  shows "(length poles_xy_i = 2 * n \<longrightarrow>
            (\<exists>bs. make_bspline startx_i starty_i endx_i endy_i poles_xy_i weights_i knots_i
                     mult degree periodic s = Returns bs s
                 \<and> length (bspline_poles bs) = n
                 \<and> (\<forall>k<n. bspline_poles bs ! k =
                       \<lparr>point_x = p_params s ! size_t (poles_xy_i ! (2 * k)),
                          point_y = p_params s ! size_t (poles_xy_i ! (2 * k + 1))\<rparr>)))
       \<and> (odd (length poles_xy_i) \<longrightarrow>
            make_bspline startx_i starty_i endx_i endy_i poles_xy_i weights_i knots_i
              mult degree periodic s = Undefined)"
proof (intro conjI impI)
  assume len: "length poles_xy_i = 2 * n"
  then have ev: "even (length poles_xy_i)" by simp
  from assms(2) have "make_bspline startx_i starty_i endx_i endy_i poles_xy_i weights_i knots_i
      mult degree periodic s =
    Returns \<lparr>bspline_start = \<lparr>point_x = p_params s ! size_t startx_i,
                                point_y = p_params s ! size_t starty_i\<rparr>,
             bspline_end = \<lparr>point_x = p_params s ! size_t endx_i,
                              point_y = p_params s ! size_t endy_i\<rparr>,
             bspline_degree = degree, bspline_periodic = periodic, bspline_mult = mult,
             bspline_poles = map (pole s poles_xy_i) [0..<n],
             bspline_weights = map (\<lambda>j. p_params s ! size_t j) weights_i,
             bspline_knots = map (\<lambda>j. p_params s ! size_t j) knots_i\<rparr> s"
    by (simp add: make_bspline_def seq_def make_point_eq [OF assms(1)]
        poles_loop_eq [OF assms(1) _ ev] params_loop_eq [OF assms(1)] len)
  then show "\<exists>bs. make_bspline startx_i starty_i endx_i endy_i poles_xy_i weights_i knots_i
                     mult degree periodic s = Returns bs s
                 \<and> length (bspline_poles bs) = n
                 \<and> (\<forall>k<n. bspline_poles bs ! k =
                       \<lparr>point_x = p_params s ! size_t (poles_xy_i ! (2 * k)),
                          point_y = p_params s ! size_t (poles_xy_i ! (2 * k + 1))\<rparr>)"
    by (simp add: pole_def)
next
  assume odd: "odd (length poles_xy_i)"
  from assms(2) show "make_bspline startx_i starty_i endx_i endy_i poles_xy_i weights_i knots_i
              mult degree periodic s = Undefined"
    by (simp add: make_bspline_def seq_def make_point_eq [OF assms(1)]
        poles_loop_odd [OF assms(1) _ odd])
qed

text \<open>
  C10 on the example store: four pole indices make the two poles (1, 2) and (3, 1) of
  pointers; with the last index left out the call has undefined behaviour.
\<close>

theorem make_bspline_poles_witness:
  "length (p_params example_store) \<le> 2 ^ 31
   \<and> list_all (in_range example_store) ([0, 1, 2, 0] @ [0, 1, 2, 0] @ [1] @ [2])
   \<and> length [0, 1, 2, 0 :: int32] = 2 * 2
   \<and> make_bspline 0 1 2 0 [0, 1, 2, 0] [1] [2] [4, 4] 3 False example_store
      = Returns \<lparr>bspline_start = \<lparr>point_x = 1, point_y = 2\<rparr>,
                 bspline_end = \<lparr>point_x = 3, point_y = 1\<rparr>,
                 bspline_degree = 3, bspline_periodic = False, bspline_mult = [4, 4],
                 bspline_poles = [\<lparr>point_x = 1, point_y = 2\<rparr>, \<lparr>point_x = 3, point_y = 1\<rparr>],
                 bspline_weights = [2], bspline_knots = [3]\<rparr> example_store
   \<and> list_all (in_range example_store) ([0, 1, 2, 0] @ [0, 1, 2] @ [1] @ [2])
   \<and> odd (length [0, 1, 2 :: int32])
   \<and> make_bspline 0 1 2 0 [0, 1, 2] [1] [2] [4, 4] 3 False example_store = Undefined"
  using make_bspline_poles [of example_store 0 1 2 0 "[0, 1, 2, 0]" "[1]" "[2]" 2 "[4, 4]" 3 False]
    make_bspline_poles [of example_store 0 1 2 0 "[0, 1, 2]" "[1]" "[2]" 0 "[4, 4]" 3 False]
  by (simp add: example_store_def in_range_def make_bspline_def seq_def make_point_def
      p_param_or_fail_def subscript_def size_t_def poles_loop.simps params_loop.simps)

section \<open>Solving\<close>

lemma solved_p_params_loop_eq:
  assumes "length (is_fixed s) = length (p_params s)"
  shows "solved_p_params_loop i acc s =
           Returns (acc @ map (\<lambda>j. p_params s ! j)
                            (filter (\<lambda>j. \<not> is_fixed s ! j) [i..<length (p_params s)])) s"
proof (induction "length (p_params s) - i" arbitrary: i acc)
  case 0
  then show ?case by (subst solved_p_params_loop.simps) simp
next
  case (Suc n)
  then have less: "i < length (p_params s)" by simp
  from Suc have "n = length (p_params s) - Suc i" by simp
  note IH = Suc.hyps(1) [OF this]
  show ?case
    by (subst solved_p_params_loop.simps)
      (simp add: less assms subscript_def IH upt_conv_Cons)
qed

lemma log_algorithm_Returns:
  "\<exists>s'. log_algorithm alg s = Returns () s' \<and> constraints s' = constraints s"
  by (simp add: log_algorithm_def)

text \<open>
  C3. In every state in which each parameter has its flag, and for every solver,
  \<open>solve_system\<close> calls the solver (after the debug line) with exactly the parameters
  whose flag \<open>fixed\<close> is false, in increasing order of their indices: no parameter whose
  flag is true is among the unknowns.
\<close>

theorem solve_system_unknowns:
  assumes "length (is_fixed s) = length (p_params s)"
  shows "solve_system solve alg s =
           seq (log_algorithm alg)
             (\<lambda>u. solve (map (\<lambda>i. p_params s ! i)
                            (filter (\<lambda>i. \<not> is_fixed s ! i) [0..<length (p_params s)]))
                      True alg) s"
  by (simp add: solve_system_def seq_def solved_p_params_loop_eq [OF assms])

text \<open>
  C3 on the example store, with a solver that returns its arguments: the unknowns are
  the first and the third parameter, and the second, which is fixed, is left out.
\<close>

theorem solve_system_unknowns_witness:
  "length (is_fixed example_store) = length (p_params example_store)
   \<and> solve_system (\<lambda>params fine alg. Returns (params, fine, alg)) DogLeg example_store
      = Returns ([1, 3], True, DogLeg)
          (example_store\<lparr>console := [''Solving with DogLeg\<newline>'']\<rparr>)"
  using solve_system_unknowns [of example_store "\<lambda>params fine alg. Returns (params, fine, alg)" DogLeg]
  by (simp add: example_store_def seq_def log_algorithm_def)

text \<open>
  C4. With \<open>System::solve\<close> as the README and the spec describe it, and in every state in
  which each parameter has its flag: for each of the three algorithms a caller can ask
  for, the solve runs SQP when a registered constraint is temporary, and the algorithm
  asked for when none is.
\<close>

theorem temporary_forces_SQP:
  assumes "length (is_fixed s) = length (p_params s)"
  shows "\<exists>r s'. solve_system System_solve alg s = Returns r s'
           \<and> (list_ex temporary (constraints s) \<longrightarrow> algorithm r = SQP)
           \<and> (\<not> list_ex temporary (constraints s) \<longrightarrow> algorithm r = Runs alg)"
proof -
  obtain s' where "log_algorithm alg s = Returns () s'" and "constraints s' = constraints s"
    using log_algorithm_Returns by blast
  then show ?thesis
    by (simp add: solve_system_def seq_def solved_p_params_loop_eq [OF assms] System_solve_def)
qed

text \<open>
  C4 on the example store: with the temporary constraint registered a solve asked to
  use DogLeg runs SQP, and without it the solve runs DogLeg.
\<close>

theorem temporary_forces_SQP_witness:
  "length (is_fixed dragging) = length (p_params dragging)
   \<and> list_ex temporary (constraints dragging)
   \<and> solve_system System_solve DogLeg dragging
      = Returns \<lparr>unknowns = [1, 3], isFine = True, algorithm = SQP\<rparr>
          (dragging\<lparr>console := [''Solving with DogLeg\<newline>'']\<rparr>)
   \<and> length (is_fixed example_store) = length (p_params example_store)
   \<and> \<not> list_ex temporary (constraints example_store)
   \<and> solve_system System_solve DogLeg example_store
      = Returns \<lparr>unknowns = [1, 3], isFine = True, algorithm = Runs DogLeg\<rparr>
          (example_store\<lparr>console := [''Solving with DogLeg\<newline>'']\<rparr>)"
  using temporary_forces_SQP [of dragging DogLeg] temporary_forces_SQP [of example_store DogLeg]
  by (simp add: example_store_def dragging_def solve_system_def seq_def log_algorithm_def
      System_solve_def solved_p_params_loop.simps subscript_def)

end
